theory Spec2Isabelle
  imports Complex_Main
begin

section \<open>JavaScript values\<close>

text \<open>
  Values of the declared type \<open>unknown\<close> (operation payloads, snapshot data, the argument of
  \<open>checkOp\<close>) are modelled by a datatype of JSON-like values. An object is an association
  list from property names to values; \<open>k in o\<close> and \<open>o.k\<close> read it. Numbers are the finite
  ones, held exactly as rationals (every finite double is a rational): \<open>NaN\<close>, the
  infinities and the rounding of double arithmetic on payloads are outside the model. Strings are
  lists of characters; \<open>length\<close> counts them as JavaScript counts code units.
\<close>

datatype jsval =
    Undefined
  | Null
  | Bool bool
  | Num rat
  | Str string
  | Arr "jsval list"
  | Obj "(string \<times> jsval) list"

text \<open>\<open>k in o\<close> for an object, and the property read \<open>o.k\<close> (\<open>undefined\<close> when absent).
  An array has index properties and \<open>length\<close> only, none of which the code asks for.\<close>

fun has_prop :: "string \<Rightarrow> jsval \<Rightarrow> bool" where
  "has_prop k (Obj fs) = (k \<in> set (map fst fs))"
| "has_prop k _ = False"

fun get_prop :: "jsval \<Rightarrow> string \<Rightarrow> jsval" where
  "get_prop (Obj fs) k = (case map_of fs k of None \<Rightarrow> Undefined | Some x \<Rightarrow> x)"
| "get_prop _ k = Undefined"

text \<open>\<open>x == null\<close> holds of \<open>null\<close> and \<open>undefined\<close>; \<open>typeof x\<close> as the code tests it.\<close>

fun nullish :: "jsval \<Rightarrow> bool" where
  "nullish Undefined = True"
| "nullish Null = True"
| "nullish _ = False"

fun typeof :: "jsval \<Rightarrow> string" where
  "typeof Undefined = ''undefined''"
| "typeof Null = ''object''"
| "typeof (Bool b) = ''boolean''"
| "typeof (Num x) = ''number''"
| "typeof (Str s) = ''string''"
| "typeof (Arr xs) = ''object''"
| "typeof (Obj fs) = ''object''"

section \<open>Errors\<close>

text \<open>The error codes of \<open>ERROR_CODES\<close>, in the order of the source.\<close>

datatype ErrorCode =
    ERR_APPLY_OP_VERSION_DOES_NOT_MATCH_SNAPSHOT
  | ERR_APPLY_SNAPSHOT_NOT_PROVIDED
  | ERR_DOC_ALREADY_CREATED
  | ERR_DOC_DOES_NOT_EXIST
  | ERR_DOC_TYPE_NOT_RECOGNIZED
  | ERR_DOC_WAS_DELETED
  | ERR_OT_OP_BADLY_FORMED
  | ERR_OT_OP_NOT_APPLIED
  | ERR_OT_OP_NOT_PROVIDED
  | ERR_OP_VERSION_MISMATCH_DURING_TRANSFORM
  | ERR_OP_ALREADY_SUBMITTED
  | ERR_SUBMIT_TRANSFORM_OPS_NOT_FOUND
  | ERR_MAX_SUBMIT_RETRIES_EXCEEDED
  | ERR_CONNECTION_CLOSED
  | ERR_CONNECTION_SEQ_INTEGER_OVERFLOW

text \<open>
  What a call can throw: an \<open>OTError\<close> with its code, or the \<open>RangeError\<close> of an array
  that cannot grow. \<open>Unmodelled\<close> is not an error of the program: it marks a call of a type
  handler with a payload that the embedding of the handler does not follow (a payload
  outside the handler's declared TypeScript type, or a text operation with a fractional
  position or count), where the program goes on in ways not described here.
\<close>

datatype error = OTError ErrorCode | RangeError | Unmodelled

section \<open>Numbers that count\<close>

text \<open>
  Versions and sequence numbers are JavaScript numbers, that is doubles, holding integers.
  An integer of magnitude up to \<open>2^53\<close> is a double; a larger one is a double only if it
  fits 53 significant bits, and the result of an addition is rounded to the nearest such
  number, a tie going to the one whose last significant bit is 0. \<open>round_to_double\<close> is
  that rounding on integers (below \<open>2^1024\<close>, which the increment of a double never
  reaches), and \<open>js_increment\<close> is \<open>x++\<close> on a double holding an integer.
\<close>

function bit_length :: "int \<Rightarrow> nat" where
  "bit_length n = (if n \<le> 0 then 0 else Suc (bit_length (n div 2)))"
  by pat_completeness auto
termination by (relation "measure nat") auto

definition round_to_double :: "int \<Rightarrow> int" where
  "round_to_double n =
     (if \<bar>n\<bar> \<le> 2 ^ 53 then n
      else (let u = 2 ^ (bit_length \<bar>n\<bar> - 53);
                q = \<bar>n\<bar> div u;
                r = \<bar>n\<bar> mod u;
                m = (if 2 * r < u \<or> (2 * r = u \<and> even q) then q else q + 1)
            in sgn n * (m * u)))"

definition js_increment :: "int \<Rightarrow> int" where
  "js_increment x = round_to_double (x + 1)"

section \<open>The simple-text type (textType, src/types/text.ts)\<close>

text \<open>
  \<open>String.prototype.slice(start, end)\<close> on integer arguments: a negative index counts
  from the end, both indices are clamped to the string, and the result is empty when the
  end is not after the start. \<open>None\<close> is the omitted second argument.
\<close>

definition slice_index :: "int \<Rightarrow> int \<Rightarrow> int" where
  "slice_index len i = (if i < 0 then max (len + i) 0 else min i len)"

definition slice :: "string \<Rightarrow> int \<Rightarrow> int option \<Rightarrow> string" where
  "slice s start end' =
     (let len = int (length s);
          from = slice_index len start;
          to = (case end' of None \<Rightarrow> len | Some e \<Rightarrow> slice_index len e)
      in take (nat (to - from)) (drop (nat from) s))"

text \<open>A text operation is \<open>{type: 'insert', pos, text}\<close> or \<open>{type: 'delete', pos, count}\<close>;
  \<open>pos\<close> and \<open>count\<close> are JavaScript numbers, modelled as integers of any sign.\<close>

datatype TextOp = InsertOp int string | DeleteOp int int

datatype side = Left | Right

text \<open>\<open>textType.create\<close>: the data if it is a string, the empty string otherwise.\<close>

fun text_create :: "jsval \<Rightarrow> string" where
  "text_create (Str s) = s"
| "text_create _ = []"

text \<open>\<open>textType.apply\<close>: two slices of the snapshot around the position.\<close>

fun text_apply :: "string \<Rightarrow> TextOp \<Rightarrow> string" where
  "text_apply snapshot (InsertOp pos txt) =
     (let before = slice snapshot 0 (Some pos);
          after = slice snapshot pos None
      in before @ txt @ after)"
| "text_apply snapshot (DeleteOp pos cnt) =
     (let before = slice snapshot 0 (Some pos);
          after = slice snapshot (pos + cnt) None
      in before @ after)"

text \<open>
  \<open>textType.transform(op1, op2, side)\<close>. The source copies \<open>op1\<close> into \<open>result\<close> and
  updates \<open>result.pos\<close> and \<open>result.count\<close>; the three equations are its three outer
  branches (\<open>op2\<close> an insert; \<open>op2\<close> a delete and \<open>op1\<close> an insert; both deletes).
\<close>

fun op_pos :: "TextOp \<Rightarrow> int" where
  "op_pos (InsertOp pos txt) = pos"
| "op_pos (DeleteOp pos cnt) = pos"

fun set_pos :: "TextOp \<Rightarrow> int \<Rightarrow> TextOp" where
  "set_pos (InsertOp pos txt) p = InsertOp p txt"
| "set_pos (DeleteOp pos cnt) p = DeleteOp p cnt"

fun text_transform :: "TextOp \<Rightarrow> TextOp \<Rightarrow> side \<Rightarrow> TextOp" where
  "text_transform op1 (InsertOp pos2 txt2) sd =
     (let insertedLength = int (length txt2)
      in if pos2 < op_pos op1 \<or> (pos2 = op_pos op1 \<and> sd = Right)
         then set_pos op1 (op_pos op1 + insertedLength)
         else op1)"
| "text_transform (InsertOp pos1 txt1) (DeleteOp pos2 cnt2) sd =
     (let deleteStart = pos2; deleteEnd = pos2 + cnt2
      in if deleteEnd \<le> pos1 then InsertOp (pos1 - cnt2) txt1
         else if deleteStart < pos1 then InsertOp deleteStart txt1
         else InsertOp pos1 txt1)"
| "text_transform (DeleteOp pos1 cnt1) (DeleteOp pos2 cnt2) sd =
     (let deleteStart = pos2; deleteEnd = pos2 + cnt2;
          ourStart = pos1; ourEnd = pos1 + cnt1
      in if deleteEnd \<le> ourStart then DeleteOp (pos1 - cnt2) cnt1
         else if deleteStart \<ge> ourEnd then DeleteOp pos1 cnt1
         else if deleteStart \<le> ourStart then
           (if deleteEnd \<ge> ourEnd then DeleteOp deleteStart 0
            else (let overlap = deleteEnd - ourStart
                  in DeleteOp deleteStart (cnt1 - overlap)))
         else
           (if deleteEnd \<ge> ourEnd then
              (let overlap = ourEnd - deleteStart in DeleteOp pos1 (cnt1 - overlap))
            else DeleteOp pos1 (cnt1 - cnt2)))"

text \<open>An operation is valid on a snapshot when its range lies inside the string.\<close>

fun valid_on :: "string \<Rightarrow> TextOp \<Rightarrow> bool" where
  "valid_on s (InsertOp pos txt) = (0 \<le> pos \<and> pos \<le> int (length s))"
| "valid_on s (DeleteOp pos cnt) = (0 \<le> pos \<and> 0 \<le> cnt \<and> pos + cnt \<le> int (length s))"


section \<open>The counter type (counterType)\<close>

text \<open>
  \<open>x | 0\<close> converts \<open>x\<close> with the language's \<open>ToInt32\<close>: the number is truncated toward
  zero, reduced modulo \<open>2^32\<close>, and read as a signed 32-bit integer.
\<close>

definition truncate_number :: "rat \<Rightarrow> int" where
  "truncate_number x = (if x < 0 then - \<lfloor>- x\<rfloor> else \<lfloor>x\<rfloor>)"

definition ToInt32 :: "rat \<Rightarrow> int" where
  "ToInt32 x =
     (let int32bit = truncate_number x mod 2 ^ 32
      in if int32bit \<ge> 2 ^ 31 then int32bit - 2 ^ 32 else int32bit)"

text \<open>
  \<open>counterType.create(data)\<close> is \<open>(data as number) | 0\<close>. A call with no argument passes
  \<open>undefined\<close>, which like \<open>null\<close> converts to \<open>0\<close>; a boolean converts to \<open>0\<close> or \<open>1\<close>.
  A string, array or object argument would be parsed as a number first; that parsing is
  outside the declared argument type and outside this model.
\<close>

fun counter_create :: "jsval \<Rightarrow> error + jsval" where
  "counter_create Undefined = Inr (Num 0)"
| "counter_create Null = Inr (Num 0)"
| "counter_create (Bool b) = Inr (Num (if b then 1 else 0))"
| "counter_create (Num x) = Inr (Num (of_int (ToInt32 x)))"
| "counter_create _ = Inl Unmodelled"

text \<open>\<open>counterType.apply(snapshot, op) = snapshot + op\<close> on two numbers.\<close>

fun counter_apply :: "jsval \<Rightarrow> jsval \<Rightarrow> error + jsval" where
  "counter_apply (Num snapshot) (Num op1) = Inr (Num (snapshot + op1))"
| "counter_apply _ _ = Inl Unmodelled"

text \<open>\<open>counterType.transform\<close> returns \<open>op1\<close> as it is, \<open>compose\<close> adds, \<open>invert\<close> negates.\<close>

definition counter_transform :: "jsval \<Rightarrow> jsval \<Rightarrow> side \<Rightarrow> error + jsval" where
  "counter_transform op1 op2 sd = Inr op1"

section \<open>Type handlers and the registry (OTType, TypeRegistry, src/core/types.ts)\<close>

text \<open>
  An \<open>OTType\<close> object: its two identifiers and the three mandatory functions, which the
  registry holds at the types \<open>unknown\<close>. A handler may throw, so each returns a sum.
  The optional \<open>compose\<close>, \<open>invert\<close> and \<open>normalize\<close> are never called by the kernel, the
  client or the server and are left out.
\<close>

record OTType =
  type_name :: string
  type_uri :: string
  type_create :: "jsval \<Rightarrow> error + jsval"
  type_apply :: "jsval \<Rightarrow> jsval \<Rightarrow> error + jsval"
  type_transform :: "jsval \<Rightarrow> jsval \<Rightarrow> side \<Rightarrow> error + jsval"

text \<open>
  The \<open>TypeRegistry\<close> is its map from names and URIs to handlers (\<open>defaultType\<close> is set by
  \<open>register\<close> and read nowhere). \<open>register\<close> stores the handler under both identifiers.
\<close>

type_synonym TypeRegistry = "string \<rightharpoonup> OTType"

definition register :: "TypeRegistry \<Rightarrow> OTType \<Rightarrow> TypeRegistry" where
  "register reg t = (reg(type_name t \<mapsto> t))(type_uri t \<mapsto> t)"

definition counterType :: OTType where
  "counterType =
     \<lparr> type_name = ''counter'',
       type_uri = ''http://sharejs.org/types/counter'',
       type_create = counter_create,
       type_apply = counter_apply,
       type_transform = counter_transform \<rparr>"

text \<open>
  The text handler at the registry's untyped interface: a text operation travels as the
  object \<open>{type, pos, text}\<close> or \<open>{type, pos, count}\<close> with integer \<open>pos\<close> and \<open>count\<close>.
  With a fractional \<open>pos\<close> or \<open>count\<close> the handler does not throw: \<open>slice\<close> truncates its
  arguments and the sums and differences of \<open>apply\<close> and \<open>transform\<close> are rounded as
  doubles. The embedding of the handler is on integers and does not follow such a call
  (\<open>decode_TextOp\<close> gives \<open>None\<close>, and the handler's result is \<open>Unmodelled\<close>).
\<close>

fun is_integer :: "rat \<Rightarrow> bool" where
  "is_integer x = (of_int \<lfloor>x\<rfloor> = x)"

fun encode_TextOp :: "TextOp \<Rightarrow> jsval" where
  "encode_TextOp (InsertOp pos txt) =
     Obj [(''type'', Str ''insert''), (''pos'', Num (of_int pos)), (''text'', Str txt)]"
| "encode_TextOp (DeleteOp pos cnt) =
     Obj [(''type'', Str ''delete''), (''pos'', Num (of_int pos)), (''count'', Num (of_int cnt))]"

definition decode_TextOp :: "jsval \<Rightarrow> TextOp option" where
  "decode_TextOp x =
     (case (get_prop x ''type'', get_prop x ''pos'', get_prop x ''text'', get_prop x ''count'') of
        (Str ty, Num p, t, c) \<Rightarrow>
          if \<not> is_integer p then None
          else if ty = ''insert'' then
            (case t of Str txt \<Rightarrow> Some (InsertOp \<lfloor>p\<rfloor> txt) | _ \<Rightarrow> None)
          else if ty = ''delete'' then
            (case c of Num n \<Rightarrow> if is_integer n then Some (DeleteOp \<lfloor>p\<rfloor> \<lfloor>n\<rfloor>) else None
                     | _ \<Rightarrow> None)
          else None
      | _ \<Rightarrow> None)"

definition text_create_js :: "jsval \<Rightarrow> error + jsval" where
  "text_create_js d = Inr (Str (text_create d))"

definition text_apply_js :: "jsval \<Rightarrow> jsval \<Rightarrow> error + jsval" where
  "text_apply_js snapshot op1 =
     (case (snapshot, decode_TextOp op1) of
        (Str s, Some o1) \<Rightarrow> Inr (Str (text_apply s o1))
      | _ \<Rightarrow> Inl Unmodelled)"

definition text_transform_js :: "jsval \<Rightarrow> jsval \<Rightarrow> side \<Rightarrow> error + jsval" where
  "text_transform_js op1 op2 sd =
     (case (decode_TextOp op1, decode_TextOp op2) of
        (Some o1, Some o2) \<Rightarrow> Inr (encode_TextOp (text_transform o1 o2 sd))
      | _ \<Rightarrow> Inl Unmodelled)"

definition textType :: OTType where
  "textType =
     \<lparr> type_name = ''simple-text'',
       type_uri = ''http://sharejs.org/types/simple-text'',
       type_create = text_create_js,
       type_apply = text_apply_js,
       type_transform = text_transform_js \<rparr>"

text \<open>The global registry \<open>types\<close> once both modules have registered their type.\<close>

definition types :: TypeRegistry where
  "types = register (register Map.empty counterType) textType"


section \<open>Operations, checkOp and snapshots (src/core/ot.ts)\<close>

text \<open>
  An operation object at its declared type: each of the properties \<open>create\<close>, \<open>del\<close>, \<open>op\<close>,
  \<open>v\<close>, \<open>src\<close>, \<open>seq\<close> is optional, and \<open>None\<close> is the absent (or \<open>undefined\<close>) property.
  The union type \<open>Op\<close> intends exactly one of the first three, but the guards below test
  each property on its own, so the record can carry several or none, as an object at run
  time can. \<open>op_op = Some Undefined\<close> is the object \<open>{op: undefined}\<close>, for which
  \<open>'op' in op\<close> holds.
\<close>

record CreateBody =
  create_type :: string
  create_data :: jsval

record Op =
  op_create :: "CreateBody option"
  op_del :: "bool option"
  op_op :: "jsval option"
  op_v :: "int option"
  op_src :: "string option"
  op_seq :: "int option"

text \<open>The three type guards.\<close>

definition isCreateOp :: "'a Op_scheme \<Rightarrow> bool" where
  "isCreateOp op1 = (op_create op1 \<noteq> None)"

definition isEditOp :: "'a Op_scheme \<Rightarrow> bool" where
  "isEditOp op1 = (op_op op1 \<noteq> None)"

definition isDeleteOp :: "'a Op_scheme \<Rightarrow> bool" where
  "isDeleteOp op1 = (op_del op1 = Some True)"

text \<open>The property read \<open>op.op\<close>: \<open>undefined\<close> when the property is absent.\<close>

definition payload :: "'a Op_scheme \<Rightarrow> jsval" where
  "payload op1 = (case op_op op1 of None \<Rightarrow> Undefined | Some x \<Rightarrow> x)"

text \<open>The operation as the object that \<open>checkOp\<close> inspects.\<close>

definition CreateBody_to_js :: "CreateBody \<Rightarrow> jsval" where
  "CreateBody_to_js b = Obj [(''type'', Str (create_type b)), (''data'', create_data b)]"

definition Op_to_js :: "Op \<Rightarrow> jsval" where
  "Op_to_js op1 = Obj
     ((case op_create op1 of None \<Rightarrow> [] | Some b \<Rightarrow> [(''create'', CreateBody_to_js b)]) @
      (case op_del op1 of None \<Rightarrow> [] | Some b \<Rightarrow> [(''del'', Bool b)]) @
      (case op_op op1 of None \<Rightarrow> [] | Some x \<Rightarrow> [(''op'', x)]) @
      (case op_v op1 of None \<Rightarrow> [] | Some n \<Rightarrow> [(''v'', Num (of_int n))]) @
      (case op_src op1 of None \<Rightarrow> [] | Some c \<Rightarrow> [(''src'', Str c)]) @
      (case op_seq op1 of None \<Rightarrow> [] | Some n \<Rightarrow> [(''seq'', Num (of_int n))]))"

text \<open>
  \<open>checkOp(op)\<close> on a value of type \<open>unknown\<close>. The first error met is thrown; the shape
  checks form one \<open>if / else if / else if\<close> chain, and the \<open>src\<close>/\<open>seq\<close> checks follow it.
  (An \<open>OTError\<close> also carries a message, which the model leaves out.)
\<close>

definition check_shape :: "TypeRegistry \<Rightarrow> jsval \<Rightarrow> error + unit" where
  "check_shape reg opObj =
     (if has_prop ''create'' opObj \<and> \<not> nullish (get_prop opObj ''create'') then
        (let create = get_prop opObj ''create''
         in if typeof create \<noteq> ''object'' then Inl (OTError ERR_OT_OP_BADLY_FORMED)
            else (case get_prop create ''type'' of
                    Str ty \<Rightarrow>
                      if reg ty = None then Inl (OTError ERR_DOC_TYPE_NOT_RECOGNIZED)
                      else Inr ()
                  | _ \<Rightarrow> Inl (OTError ERR_OT_OP_BADLY_FORMED)))
      else if has_prop ''del'' opObj \<and> \<not> nullish (get_prop opObj ''del'') then
        (if get_prop opObj ''del'' \<noteq> Bool True then Inl (OTError ERR_OT_OP_BADLY_FORMED)
         else Inr ())
      else if \<not> has_prop ''op'' opObj then Inl (OTError ERR_OT_OP_BADLY_FORMED)
      else Inr ())"

definition check_src_seq :: "jsval \<Rightarrow> error + unit" where
  "check_src_seq opObj =
     (let src = get_prop opObj ''src''; seq = get_prop opObj ''seq''
      in if \<not> nullish src \<and> typeof src \<noteq> ''string'' then Inl (OTError ERR_OT_OP_BADLY_FORMED)
         else if \<not> nullish seq \<and> typeof seq \<noteq> ''number'' then
           Inl (OTError ERR_OT_OP_BADLY_FORMED)
         else if (nullish src \<and> \<not> nullish seq) \<or> (\<not> nullish src \<and> nullish seq) then
           Inl (OTError ERR_OT_OP_BADLY_FORMED)
         else Inr ())"

definition checkOp :: "TypeRegistry \<Rightarrow> jsval \<Rightarrow> error + unit" where
  "checkOp reg x =
     (if nullish x \<or> typeof x \<noteq> ''object'' then Inl (OTError ERR_OT_OP_BADLY_FORMED)
      else (case check_shape reg x of
              Inl e \<Rightarrow> Inl e
            | Inr _ \<Rightarrow> check_src_seq x))"

text \<open>
  A snapshot. \<open>snap_type = None\<close> is the \<open>null\<close> type of a document that does not exist;
  \<open>snap_data = Undefined\<close> is its absent data. The version is a double holding an integer.
\<close>

record Snapshot =
  snap_id :: string
  snap_v :: int
  snap_type :: "string option"
  snap_data :: jsval
  snap_m :: "(string \<times> jsval) list option"

definition createEmptySnapshot :: "string \<Rightarrow> Snapshot" where
  "createEmptySnapshot i =
     \<lparr> snap_id = i, snap_v = 0, snap_type = None, snap_data = Undefined, snap_m = None \<rparr>"

text \<open>
  \<open>JSON.parse(JSON.stringify(x))\<close> on a value that is not \<open>undefined\<close> itself: inside an
  array \<open>undefined\<close> becomes \<open>null\<close>, inside an object a property holding \<open>undefined\<close> is
  dropped.
\<close>

fun json_copy :: "jsval \<Rightarrow> jsval" where
  "json_copy (Arr xs) =
     Arr (map (\<lambda>x. if x = Undefined then Null else json_copy x) xs)"
| "json_copy (Obj fs) =
     Obj (map (\<lambda>(k, x). (k, json_copy x)) (filter (\<lambda>(k, x). x \<noteq> Undefined) fs))"
| "json_copy x = x"

definition cloneSnapshot :: "Snapshot \<Rightarrow> Snapshot" where
  "cloneSnapshot snapshot =
     \<lparr> snap_id = snap_id snapshot,
       snap_v = snap_v snapshot,
       snap_type = snap_type snapshot,
       snap_data = (if snap_data snapshot \<noteq> Undefined then json_copy (snap_data snapshot)
                    else Undefined),
       snap_m = snap_m snapshot \<rparr>"

text \<open>A type name is truthy when it is neither \<open>null\<close> nor the empty string.\<close>

fun truthy_name :: "string option \<Rightarrow> bool" where
  "truthy_name None = False"
| "truthy_name (Some n) = (n \<noteq> [])"

section \<open>The kernel: apply and transform (src/core/ot.ts)\<close>

text \<open>
  \<open>apply(snapshot, op)\<close> mutates the snapshot; the model returns the mutated snapshot, or
  the error thrown. Every \<open>throw\<close> of the source comes before its first assignment to the
  snapshot, so a failed call leaves the snapshot as it was. \<open>None\<close> for the snapshot is a
  missing (\<open>null\<close>) argument. Every returning branch ends in \<open>snapshot.v++\<close>.
\<close>

definition ot_apply :: "TypeRegistry \<Rightarrow> Snapshot option \<Rightarrow> 'a Op_scheme \<Rightarrow> error + Snapshot" where
  "ot_apply reg snapshot' op1 =
     (case snapshot' of
        None \<Rightarrow> Inl (OTError ERR_APPLY_SNAPSHOT_NOT_PROVIDED)
      | Some snapshot \<Rightarrow>
          if op_v op1 \<noteq> None \<and> Some (snap_v snapshot) \<noteq> op_v op1 then
            Inl (OTError ERR_APPLY_OP_VERSION_DOES_NOT_MATCH_SNAPSHOT)
          else if isCreateOp op1 then
            (if truthy_name (snap_type snapshot) then Inl (OTError ERR_DOC_ALREADY_CREATED)
             else
               (case reg (create_type (the (op_create op1))) of
                  None \<Rightarrow> Inl (OTError ERR_DOC_TYPE_NOT_RECOGNIZED)
                | Some ty \<Rightarrow>
                    (case type_create ty (create_data (the (op_create op1))) of
                       Inl e \<Rightarrow> Inl e
                     | Inr d \<Rightarrow>
                         Inr (snapshot\<lparr> snap_data := d, snap_type := Some (type_uri ty),
                                         snap_v := js_increment (snap_v snapshot) \<rparr>))))
          else if isDeleteOp op1 then
            Inr (snapshot\<lparr> snap_data := Undefined, snap_type := None,
                            snap_v := js_increment (snap_v snapshot) \<rparr>)
          else if isEditOp op1 then
            (if \<not> truthy_name (snap_type snapshot) then Inl (OTError ERR_DOC_DOES_NOT_EXIST)
             else if payload op1 = Undefined then Inl (OTError ERR_OT_OP_NOT_PROVIDED)
             else
               (case reg (the (snap_type snapshot)) of
                  None \<Rightarrow> Inl (OTError ERR_DOC_TYPE_NOT_RECOGNIZED)
                | Some ty \<Rightarrow>
                    (case type_apply ty (snap_data snapshot) (payload op1) of
                       Inl e \<Rightarrow> Inl e
                     | Inr d \<Rightarrow>
                         Inr (snapshot\<lparr> snap_data := d,
                                         snap_v := js_increment (snap_v snapshot) \<rparr>))))
          else Inr (snapshot\<lparr> snap_v := js_increment (snap_v snapshot) \<rparr>))"

text \<open>
  The first argument of \<open>transform\<close> is a handler, a type name, or \<open>null\<close>. It is falsy when
  it is \<open>null\<close> or the empty name; a name is resolved through the registry.
\<close>

datatype type_arg = TypeObject OTType | TypeName string | TypeNull

fun type_arg_of_name :: "string option \<Rightarrow> type_arg" where
  "type_arg_of_name None = TypeNull"
| "type_arg_of_name (Some n) = TypeName n"

fun falsy_type :: "type_arg \<Rightarrow> bool" where
  "falsy_type TypeNull = True"
| "falsy_type (TypeName n) = (n = [])"
| "falsy_type (TypeObject t) = False"

fun resolve_type :: "TypeRegistry \<Rightarrow> type_arg \<Rightarrow> OTType option" where
  "resolve_type reg (TypeName n) = reg n"
| "resolve_type reg (TypeObject t) = Some t"
| "resolve_type reg TypeNull = None"

text \<open>\<open>op.v++\<close> when \<open>op.v\<close> is set.\<close>

definition increment_version :: "Op \<Rightarrow> Op" where
  "increment_version op1 =
     (case op_v op1 of None \<Rightarrow> op1 | Some n \<Rightarrow> op1\<lparr> op_v := Some (js_increment n) \<rparr>)"

text \<open>
  \<open>transform(type, op, appliedOp)\<close> mutates \<open>op\<close>; the model returns the mutated operation or
  the error thrown. \<open>transform_cases\<close> is the \<open>if / else if\<close> chain, in the order of the
  source; the version check precedes it and the version increment follows it.
\<close>

definition transform_cases :: "TypeRegistry \<Rightarrow> type_arg \<Rightarrow> Op \<Rightarrow> 'a Op_scheme \<Rightarrow> error + Op" where
  "transform_cases reg ty op1 appliedOp =
     (if isDeleteOp appliedOp then
        (if isCreateOp op1 \<or> isEditOp op1 then Inl (OTError ERR_DOC_WAS_DELETED) else Inr op1)
      else if isCreateOp appliedOp \<and> (isEditOp op1 \<or> isCreateOp op1 \<or> isDeleteOp op1) then
        Inl (OTError ERR_DOC_ALREADY_CREATED)
      else if isEditOp appliedOp \<and> isCreateOp op1 then
        Inl (OTError ERR_DOC_ALREADY_CREATED)
      else if isEditOp appliedOp \<and> isEditOp op1 then
        (if falsy_type ty then Inl (OTError ERR_DOC_DOES_NOT_EXIST)
         else
           (case resolve_type reg ty of
              None \<Rightarrow> Inl (OTError ERR_DOC_TYPE_NOT_RECOGNIZED)
            | Some resolvedType \<Rightarrow>
                (case type_transform resolvedType (payload op1) (payload appliedOp) Left of
                   Inl e \<Rightarrow> Inl e
                 | Inr x \<Rightarrow> Inr (op1\<lparr> op_op := Some x \<rparr>))))
      else Inr op1)"

definition transform :: "TypeRegistry \<Rightarrow> type_arg \<Rightarrow> Op \<Rightarrow> 'a Op_scheme \<Rightarrow> error + Op" where
  "transform reg ty op1 appliedOp =
     (if op_v op1 \<noteq> None \<and> op_v appliedOp \<noteq> None \<and> op_v op1 \<noteq> op_v appliedOp then
        Inl (OTError ERR_OP_VERSION_MISMATCH_DURING_TRANSFORM)
      else (case transform_cases reg ty op1 appliedOp of
              Inl e \<Rightarrow> Inl e
            | Inr op2 \<Rightarrow> Inr (increment_version op2)))"

section \<open>The in-memory store (MemoryDb)\<close>

text \<open>
  A stored operation is the operation with the collection \<open>c\<close>, the document \<open>d\<close> and the
  metadata \<open>m = {ts}\<close> added. The time stamp is \<open>Date.now()\<close> at the commit; the model takes
  it as an argument.
\<close>

record StoredOp = Op +
  sop_c :: string
  sop_d :: string
  sop_ts :: int

text \<open>The two maps of the store: collection to document to snapshot, and to operation log.\<close>

record MemoryDb =
  db_snapshots :: "string \<rightharpoonup> (string \<rightharpoonup> Snapshot)"
  db_ops :: "string \<rightharpoonup> (string \<rightharpoonup> StoredOp list)"

definition new_MemoryDb :: MemoryDb where
  "new_MemoryDb = \<lparr> db_snapshots = Map.empty, db_ops = Map.empty \<rparr>"

text \<open>\<open>m.get(collection)?.get(id)\<close> on a map of maps.\<close>

definition lookup2 :: "(string \<rightharpoonup> (string \<rightharpoonup> 'a)) \<Rightarrow> string \<Rightarrow> string \<Rightarrow> 'a option" where
  "lookup2 m collection i = (case m collection of None \<Rightarrow> None | Some docs \<Rightarrow> docs i)"

definition getSnapshot :: "MemoryDb \<Rightarrow> string \<Rightarrow> string \<Rightarrow> Snapshot" where
  "getSnapshot db collection i =
     (case lookup2 (db_snapshots db) collection i of
        Some snapshot \<Rightarrow> cloneSnapshot snapshot
      | None \<Rightarrow> createEmptySnapshot i)"

text \<open>\<open>getOps\<close> filters the document's log by version; an entry without a version fails
  both comparisons. \<open>None\<close> for \<open>toVersion\<close> is the omitted argument.\<close>

definition getOps :: "MemoryDb \<Rightarrow> string \<Rightarrow> string \<Rightarrow> int \<Rightarrow> int option \<Rightarrow> StoredOp list" where
  "getOps db collection i fromVersion toVersion =
     (let docOps = (case lookup2 (db_ops db) collection i of None \<Rightarrow> [] | Some l \<Rightarrow> l)
      in filter (\<lambda>op1. case op_v op1 of
                          None \<Rightarrow> False
                        | Some v \<Rightarrow> v \<ge> fromVersion \<and>
                                    (case toVersion of None \<Rightarrow> True | Some t \<Rightarrow> v < t))
                docOps)"

definition stored :: "Op \<Rightarrow> string \<Rightarrow> string \<Rightarrow> int \<Rightarrow> StoredOp" where
  "stored op1 collection i now =
     \<lparr> op_create = op_create op1, op_del = op_del op1, op_op = op_op op1,
       op_v = op_v op1, op_src = op_src op1, op_seq = op_seq op1,
       sop_c = collection, sop_d = i, sop_ts = now \<rparr>"

text \<open>
  \<open>commit\<close>: the two collection maps are created when missing (also when the commit then
  fails); the commit fails when \<open>op.v\<close> is not the stored version (\<open>0\<close> for a document with
  no snapshot); otherwise the stored form of the operation is pushed on the log and a
  clone of the snapshot replaces the stored one. An array holds at most \<open>2^32 - 1\<close>
  elements: on a log of that length \<open>push\<close> throws a \<open>RangeError\<close> and leaves the length as
  it is, and the snapshot is not replaced. The result is the returned boolean or the error
  thrown, and the store afterwards.
\<close>

definition max_array_length :: int where
  "max_array_length = 4294967295"

definition commit ::
  "MemoryDb \<Rightarrow> string \<Rightarrow> string \<Rightarrow> Op \<Rightarrow> Snapshot \<Rightarrow> int \<Rightarrow> (error + bool) \<times> MemoryDb"
  where
  "commit db collection i op1 snapshot now =
     (let collectionSnapshots =
            (case db_snapshots db collection of None \<Rightarrow> Map.empty | Some docs \<Rightarrow> docs);
          collectionOps =
            (case db_ops db collection of None \<Rightarrow> Map.empty | Some docs \<Rightarrow> docs);
          currentVersion =
            (case collectionSnapshots i of None \<Rightarrow> 0 | Some current \<Rightarrow> snap_v current)
      in if op_v op1 \<noteq> Some currentVersion then
           (Inr False, \<lparr> db_snapshots = (db_snapshots db)(collection \<mapsto> collectionSnapshots),
                         db_ops = (db_ops db)(collection \<mapsto> collectionOps) \<rparr>)
         else
           (let docOps = (case collectionOps i of None \<Rightarrow> [] | Some l \<Rightarrow> l);
                storedOp = stored op1 collection i now
            in if int (length docOps) \<ge> max_array_length then
                 (Inl RangeError,
                  \<lparr> db_snapshots = (db_snapshots db)(collection \<mapsto> collectionSnapshots),
                    db_ops = (db_ops db)(collection \<mapsto> collectionOps(i \<mapsto> docOps)) \<rparr>)
               else
                 (Inr True,
                  \<lparr> db_snapshots = (db_snapshots db)
                      (collection \<mapsto> collectionSnapshots(i \<mapsto> cloneSnapshot snapshot)),
                    db_ops = (db_ops db)
                      (collection \<mapsto> collectionOps(i \<mapsto> docOps @ [storedOp])) \<rparr>)))"

section \<open>The server commit loop (submitOp)\<close>

text \<open>
  \<open>submitOp\<close> is an \<open>async\<close> function: it gives up control at each \<open>await\<close> (after
  \<open>getSnapshot\<close>, after \<open>getOps\<close>, after \<open>commit\<close>), and there other tasks of the same
  process may run. The only way another task changes the store is a call of \<open>commit\<close>, so
  what happens at an \<open>await\<close> is a list of such calls. A \<open>turn\<close> holds, for one pass through
  the loop, the calls that run at each of its three \<open>await\<close>s and the clock read by its own
  commit.
\<close>

record commit_call =
  cc_collection :: string
  cc_id :: string
  cc_op :: Op
  cc_snapshot :: Snapshot
  cc_now :: int

definition interfere :: "commit_call list \<Rightarrow> MemoryDb \<Rightarrow> MemoryDb" where
  "interfere calls db =
     foldl (\<lambda>db1 cc. snd (commit db1 (cc_collection cc) (cc_id cc) (cc_op cc)
                                  (cc_snapshot cc) (cc_now cc)))
           db calls"

record turn =
  after_getSnapshot :: "commit_call list"
  after_getOps :: "commit_call list"
  commit_time :: int
  after_commit :: "commit_call list"

definition quiet :: turn where
  "quiet = \<lparr> after_getSnapshot = [], after_getOps = [], commit_time = 0, after_commit = [] \<rparr>"

text \<open>
  \<open>JSON.parse(JSON.stringify(op))\<close> at the type of operations: payloads are copied, and a
  property holding \<open>undefined\<close> disappears (so \<open>{op: undefined}\<close> becomes \<open>{}\<close>).
\<close>

definition json_copy_Op :: "Op \<Rightarrow> Op" where
  "json_copy_Op op1 =
     \<lparr> op_create = map_option
         (\<lambda>b. \<lparr> create_type = create_type b, create_data = json_copy (create_data b) \<rparr>)
         (op_create op1),
       op_del = op_del op1,
       op_op = (case op_op op1 of
                  None \<Rightarrow> None
                | Some x \<Rightarrow> if x = Undefined then None else Some (json_copy x)),
       op_v = op_v op1, op_src = op_src op1, op_seq = op_seq op1 \<rparr>"

text \<open>
  The \<open>for\<close> loop over the historical operations: the duplicate check (\<open>opCopy.src\<close> is
  truthy and \<open>src\<close> and \<open>seq\<close> both agree), then the transform, entry by entry.
\<close>

fun truthy_src :: "string option \<Rightarrow> bool" where
  "truthy_src None = False"
| "truthy_src (Some c) = (c \<noteq> [])"

fun rebase :: "TypeRegistry \<Rightarrow> type_arg \<Rightarrow> Op \<Rightarrow> StoredOp list \<Rightarrow> error + Op" where
  "rebase reg ty opCopy [] = Inr opCopy"
| "rebase reg ty opCopy (historicalOp # rest) =
     (if truthy_src (op_src opCopy) \<and> op_src opCopy = op_src historicalOp \<and>
         op_seq opCopy = op_seq historicalOp
      then Inl (OTError ERR_OP_ALREADY_SUBMITTED)
      else (case transform reg ty opCopy historicalOp of
              Inl e \<Rightarrow> Inl e
            | Inr opCopy' \<Rightarrow> rebase reg ty opCopy' rest))"

text \<open>Step 2: the copy takes the snapshot's version when it has none.\<close>

definition with_version :: "Snapshot \<Rightarrow> Op \<Rightarrow> Op" where
  "with_version snapshot opCopy =
     (case op_v opCopy of None \<Rightarrow> opCopy\<lparr> op_v := Some (snap_v snapshot) \<rparr> | Some n \<Rightarrow> opCopy)"

definition version_of :: "Snapshot \<Rightarrow> Op \<Rightarrow> int" where
  "version_of snapshot opCopy = (case op_v opCopy of None \<Rightarrow> snap_v snapshot | Some n \<Rightarrow> n)"

text \<open>
  Step 3: when the copy's version is not the snapshot's, it is either ahead (an error)
  or behind; then the log entries in between are fetched, counted, and the copy is
  rebased over them. The result is the error thrown or the rebased copy with the entries
  it was transformed against, and the store as it is by then.
\<close>

definition transform_if_needed ::
  "TypeRegistry \<Rightarrow> turn \<Rightarrow> MemoryDb \<Rightarrow> string \<Rightarrow> string \<Rightarrow> Snapshot \<Rightarrow> Op
     \<Rightarrow> (error + Op \<times> StoredOp list) \<times> MemoryDb" where
  "transform_if_needed reg t db collection i snapshot opCopy =
     (let v = version_of snapshot opCopy
      in if v \<noteq> snap_v snapshot then
           (if v > snap_v snapshot then (Inl (OTError ERR_OT_OP_BADLY_FORMED), db)
            else
              (let ops = getOps db collection i v (Some (snap_v snapshot));
                   db' = interfere (after_getOps t) db
               in if int (length ops) \<noteq> snap_v snapshot - v then
                    (Inl (OTError ERR_SUBMIT_TRANSFORM_OPS_NOT_FOUND), db')
                  else
                    (case rebase reg (type_arg_of_name (snap_type snapshot)) opCopy ops of
                       Inl e \<Rightarrow> (Inl e, db')
                     | Inr opCopy' \<Rightarrow> (Inr (opCopy', ops), db'))))
         else (Inr (opCopy, []), db))"

record SubmitResult =
  res_op :: Op
  res_snapshot :: Snapshot
  res_ops :: "StoredOp list"

text \<open>
  One pass through the body of the \<open>while (true)\<close> loop, up to the test of \<open>committed\<close>: it
  ends in a \<open>return\<close> (\<open>Committed\<close>), in a \<open>throw\<close> (\<open>Thrown\<close>, also the one that comes out of
  \<open>await db.commit\<close>), or with a failed commit (\<open>Conflict\<close>), each with the store as it is
  by then.
\<close>

datatype attempt_outcome =
    Committed SubmitResult MemoryDb
  | Conflict MemoryDb
  | Thrown error MemoryDb

definition attempt ::
  "TypeRegistry \<Rightarrow> turn \<Rightarrow> MemoryDb \<Rightarrow> string \<Rightarrow> string \<Rightarrow> Op \<Rightarrow> attempt_outcome" where
  "attempt reg t db collection i op1 =
     (let snapshot = getSnapshot db collection i;
          db1 = interfere (after_getSnapshot t) db;
          opCopy = with_version snapshot (json_copy_Op op1)
      in case transform_if_needed reg t db1 collection i snapshot opCopy of
           (Inl e, db2) \<Rightarrow> Thrown e db2
         | (Inr (opCopy', transformedOps), db2) \<Rightarrow>
             (case ot_apply reg (Some (cloneSnapshot snapshot)) opCopy' of
                Inl e \<Rightarrow> Thrown e db2
              | Inr newSnapshot \<Rightarrow>
                  (case commit db2 collection i opCopy' newSnapshot (commit_time t) of
                     (outcome, db3) \<Rightarrow>
                       (let db4 = interfere (after_commit t) db3
                        in case outcome of
                             Inl e \<Rightarrow> Thrown e db4
                           | Inr committed \<Rightarrow>
                               if committed then
                                 Committed \<lparr> res_op = opCopy', res_snapshot = newSnapshot,
                                             res_ops = transformedOps \<rparr> db4
                               else Conflict db4))))"

text \<open>
  The loop. \<open>retries\<close> counts the failed commits so far and numbers the turn. After a
  failed commit the source increments \<open>retries\<close>, throws when it exceeds \<open>maxRetries\<close>, and
  otherwise assigns \<open>op.v = undefined\<close> on the operation it was given and goes round
  again. The result is what \<open>submitOp\<close> returns or throws, the store afterwards, and the
  caller's operation object afterwards.
\<close>

function submit_loop ::
  "TypeRegistry \<Rightarrow> (nat \<Rightarrow> turn) \<Rightarrow> nat \<Rightarrow> string \<Rightarrow> string \<Rightarrow> nat \<Rightarrow> MemoryDb \<Rightarrow> Op
     \<Rightarrow> (error + SubmitResult) \<times> MemoryDb \<times> Op" where
  "submit_loop reg sched maxRetries collection i retries db op1 =
     (case attempt reg (sched retries) db collection i op1 of
        Committed result db' \<Rightarrow> (Inr result, db', op1)
      | Thrown e db' \<Rightarrow> (Inl e, db', op1)
      | Conflict db' \<Rightarrow>
          if Suc retries > maxRetries then
            (Inl (OTError ERR_MAX_SUBMIT_RETRIES_EXCEEDED), db', op1)
          else submit_loop reg sched maxRetries collection i (Suc retries) db'
                 (op1\<lparr> op_v := None \<rparr>))"
  by pat_completeness auto
termination
  by (relation "measure (\<lambda>(reg, sched, maxRetries, collection, i, retries, db, op1).
                           maxRetries - retries)") auto

text \<open>\<open>submitOp(db, collection, id, op, options)\<close>; \<open>options.maxRetries\<close> defaults to 10.\<close>

definition submitOp ::
  "TypeRegistry \<Rightarrow> MemoryDb \<Rightarrow> string \<Rightarrow> string \<Rightarrow> Op \<Rightarrow> nat option \<Rightarrow> (nat \<Rightarrow> turn)
     \<Rightarrow> (error + SubmitResult) \<times> MemoryDb \<times> Op" where
  "submitOp reg db collection i op1 maxRetries' sched =
     (let maxRetries = (case maxRetries' of None \<Rightarrow> 10 | Some n \<Rightarrow> n)
      in case checkOp reg (Op_to_js op1) of
           Inl e \<Rightarrow> (Inl e, db, op1)
         | Inr u \<Rightarrow> submit_loop reg sched maxRetries collection i 0 db op1)"

text \<open>The operation object \<open>{}\<close>: none of the six properties. It has the no-op shape.\<close>

definition empty_op :: Op where
  "empty_op = \<lparr> op_create = None, op_del = None, op_op = None,
                op_v = None, op_src = None, op_seq = None \<rparr>"

section \<open>The client replica (Doc and Connection)\<close>

text \<open>
  A pending operation is an operation with the handler of the document's type at the
  time of submission and the callbacks to call on acknowledgement or error. A callback is
  a function of the caller; the model names it by a number and records each invocation. An
  entry of the array may be \<open>undefined\<close> (\<open>None\<close>), which \<open>callback?.(\<dots>)\<close> skips.
\<close>

record PendingOp = Op +
  pend_type :: "OTType option"
  callbacks :: "nat option list"

text \<open>A message of action \<open>op\<close>: the operation's properties, the collection, the document
  and, on a rejection, the error envelope \<open>{code, message}\<close>.\<close>

record ErrorInfo =
  err_code :: string
  err_message :: string

record OpMessage = Op +
  msg_c :: string
  msg_d :: string
  msg_error :: "ErrorInfo option"

datatype message = SubscribeMessage string string | OpMessage OpMessage

text \<open>What the client throws or hands to callbacks: a JavaScript \<open>Error\<close> with its
  message, or whatever a type handler threw.\<close>

datatype exn = Error string | HandlerError error

text \<open>
  The events a document emits, and the effects of a call that are visible outside the
  replica, in the order they happen: a callback invoked with its argument, an event
  emitted to the listeners, a message handed to the transport, a callback registered for
  the next \<open>subscribe\<close> event, a console warning. Callbacks and listeners are taken to
  return normally and not to call back into the replica.
\<close>

datatype event =
    Ev_subscribe "exn option"
  | Ev_load
  | Ev_error exn
  | Ev_before_op jsval bool
  | Ev_op jsval bool
  | Ev_create bool
  | Ev_del jsval bool
  | Ev_ack

datatype effect =
    Called nat "exn option"
  | Emitted event
  | Sent message
  | Once_subscribe nat
  | Warned

text \<open>
  The state of one document and of its connection. \<open>has_transport\<close> says that a transport
  is bound; \<open>has_error_listener\<close> says that a listener for \<open>error\<close> is registered on the
  document (an event emitter throws the error of an \<open>error\<close> event nobody listens to).
\<close>

record Client =
  conn_id :: string
  conn_seq :: int
  canSend :: bool
  has_transport :: bool
  doc_collection :: string
  doc_id :: string
  version :: "int option"
  doc_type :: "OTType option"
  doc_data :: jsval
  subscribed :: bool
  inflightOp :: "PendingOp option"
  pendingOps :: "PendingOp list"
  has_error_listener :: bool
  effects :: "effect list"

text \<open>A call returns the exception it threw, if any, and the state it left.\<close>

type_synonym 'a outcome = "exn option \<times> 'a"

definition and_then :: "Client outcome \<Rightarrow> (Client \<Rightarrow> Client outcome) \<Rightarrow> Client outcome" where
  "and_then r f = (case r of (Some x, cl) \<Rightarrow> (Some x, cl) | (None, cl) \<Rightarrow> f cl)"

definition record_effect :: "effect \<Rightarrow> Client \<Rightarrow> Client" where
  "record_effect e cl = cl\<lparr> effects := effects cl @ [e] \<rparr>"

definition emit :: "event \<Rightarrow> Client \<Rightarrow> Client outcome" where
  "emit ev cl =
     (case ev of
        Ev_error x \<Rightarrow>
          if has_error_listener cl then (None, record_effect (Emitted ev) cl) else (Some x, cl)
      | _ \<Rightarrow> (None, record_effect (Emitted ev) cl))"

text \<open>\<open>Connection._send\<close>, \<open>sendSubscribe\<close> and \<open>sendOp\<close>.\<close>

definition send :: "message \<Rightarrow> Client \<Rightarrow> Client outcome" where
  "send m cl =
     (if \<not> has_transport cl then (Some (Error ''No transport bound to connection''), cl)
      else if \<not> canSend cl then (Some (Error ''Connection cannot send messages''), cl)
      else (None, record_effect (Sent m) cl))"

definition sendSubscribe :: "Client \<Rightarrow> Client outcome" where
  "sendSubscribe cl = send (SubscribeMessage (doc_collection cl) (doc_id cl)) cl"

definition sendOp :: "PendingOp \<Rightarrow> Client \<Rightarrow> Client outcome" where
  "sendOp op1 cl =
     send (OpMessage
       \<lparr> op_create = op_create op1,
         op_del = (if op_create op1 = None \<and> op_del op1 \<noteq> None then Some True else None),
         op_op = (if op_create op1 = None \<and> op_del op1 = None then op_op op1 else None),
         op_v = op_v op1, op_src = op_src op1, op_seq = op_seq op1,
         msg_c = doc_collection cl, msg_d = doc_id cl, msg_error = None \<rparr>) cl"

text \<open>\<open>Doc.subscribe(callback)\<close>.\<close>

definition subscribe :: "nat option \<Rightarrow> Client \<Rightarrow> Client outcome" where
  "subscribe callback cl =
     (if subscribed cl then
        (None, case callback of None \<Rightarrow> cl | Some cb \<Rightarrow> record_effect (Called cb None) cl)
      else
        and_then (if canSend cl then sendSubscribe cl else (None, cl))
          (\<lambda>cl1. (None, case callback of
                          None \<Rightarrow> cl1
                        | Some cb \<Rightarrow> record_effect (Once_subscribe cb) cl1)))"

text \<open>\<open>Doc.flush()\<close>: the head of the queue becomes the operation in flight, receives its
  \<open>seq\<close> and \<open>src\<close> if it has none, and is sent.\<close>

definition flush :: "Client \<Rightarrow> Client outcome" where
  "flush cl =
     (if \<not> canSend cl \<or> inflightOp cl \<noteq> None then (None, cl)
      else (case pendingOps cl of
              [] \<Rightarrow> (None, cl)
            | p # rest \<Rightarrow>
                (let seq_missing = (op_seq p = None);
                     op1 = (if seq_missing then p\<lparr> op_seq := Some (conn_seq cl) \<rparr> else p);
                     op2 = (if op_src op1 = None then op1\<lparr> op_src := Some (conn_id cl) \<rparr>
                            else op1);
                     cl1 = cl\<lparr> inflightOp := Some op2, pendingOps := rest,
                               conn_seq := (if seq_missing then js_increment (conn_seq cl)
                                            else conn_seq cl) \<rparr>
                 in sendOp op2 cl1)))"

text \<open>The callbacks of an operation that are functions, each called with the same
  argument, in order.\<close>

definition call_all :: "'a PendingOp_scheme \<Rightarrow> exn option \<Rightarrow> effect list" where
  "call_all op1 arg =
     concat (map (\<lambda>cb. case cb of None \<Rightarrow> [] | Some f \<Rightarrow> [Called f arg]) (callbacks op1))"

text \<open>
  \<open>Doc._hardRollback(error)\<close>: the operation in flight and the queue are dropped, type,
  data and version are reset, every callback of every dropped operation is called with
  the error, and the document subscribes again; at the end the error is emitted.
\<close>

definition hardRollback :: "exn \<Rightarrow> Client \<Rightarrow> Client outcome" where
  "hardRollback err cl =
     (let allOps = (case inflightOp cl of
                      Some inflight \<Rightarrow> inflight # pendingOps cl
                    | None \<Rightarrow> pendingOps cl);
          cl1 = cl\<lparr> inflightOp := None, pendingOps := [], doc_type := None,
                    doc_data := Undefined, version := None \<rparr>;
          cl2 = cl1\<lparr> effects := effects cl1 @ concat (map (\<lambda>op1. call_all op1 (Some err)) allOps) \<rparr>;
          cl3 = cl2\<lparr> subscribed := False \<rparr>
      in and_then (subscribe None cl3) (emit (Ev_error err)))"

definition rollback :: "exn \<Rightarrow> Client \<Rightarrow> Client outcome" where
  "rollback err cl = hardRollback err cl"

text \<open>
  \<open>transformX(client, server)\<close> rewrites both arguments and returns an \<open>Error\<close> or
  \<open>undefined\<close>; a handler may throw inside it. \<open>server.op\<close> counts as absent when it is
  \<open>undefined\<close>.
\<close>

datatype transformX_result =
    Transformed PendingOp OpMessage
  | Failed exn
  | Threw exn

definition transformX :: "PendingOp \<Rightarrow> OpMessage \<Rightarrow> transformX_result" where
  "transformX client server =
     (if op_del client = Some True then
        Transformed client (server\<lparr> op_op := None, op_create := None, op_del := None \<rparr>)
      else if op_del server = Some True then Failed (Error ''Document was deleted'')
      else if op_create server \<noteq> None then Failed (Error ''Document already created'')
      else if payload server = Undefined then Transformed client server
      else if op_create client \<noteq> None then Failed (Error ''Document already created'')
      else if op_op client \<noteq> None \<and> pend_type client \<noteq> None then
        (case type_transform (the (pend_type client)) (payload client) (payload server) Left of
           Inl e \<Rightarrow> Threw (HandlerError e)
         | Inr clientOp \<Rightarrow>
             (case type_transform (the (pend_type client)) (payload server) (payload client) Right of
                Inl e \<Rightarrow> Threw (HandlerError e)
              | Inr serverOp \<Rightarrow>
                  Transformed (client\<lparr> op_op := Some clientOp \<rparr>)
                              (server\<lparr> op_op := Some serverOp \<rparr>)))
      else Transformed client server)"

text \<open>The loop over \<open>pendingOps\<close>: the operations already rewritten, then the first
  failure or exception with the operations left as they are.\<close>

datatype transform_queue_result =
    Queue_transformed "PendingOp list" OpMessage
  | Queue_failed exn
  | Queue_threw exn "PendingOp list"

fun transform_queue :: "PendingOp list \<Rightarrow> OpMessage \<Rightarrow> transform_queue_result" where
  "transform_queue [] server = Queue_transformed [] server"
| "transform_queue (pendingOp # rest) server =
     (case transformX pendingOp server of
        Failed err \<Rightarrow> Queue_failed err
      | Threw x \<Rightarrow> Queue_threw x (pendingOp # rest)
      | Transformed pendingOp' server' \<Rightarrow>
          (case transform_queue rest server' of
             Queue_transformed rest' server'' \<Rightarrow> Queue_transformed (pendingOp' # rest') server''
           | Queue_failed err \<Rightarrow> Queue_failed err
           | Queue_threw x rest' \<Rightarrow> Queue_threw x (pendingOp' # rest')))"

text \<open>\<open>Doc._otApply(op, source)\<close>.\<close>

definition otApply :: "TypeRegistry \<Rightarrow> OpMessage \<Rightarrow> bool \<Rightarrow> Client \<Rightarrow> Client outcome" where
  "otApply reg op1 source cl =
     (if payload op1 \<noteq> Undefined then
        (case doc_type cl of
           None \<Rightarrow> emit (Ev_error (Error ''Cannot apply op to uncreated document'')) cl
         | Some ty \<Rightarrow>
             and_then (emit (Ev_before_op (payload op1) source) cl)
               (\<lambda>cl1. case type_apply ty (doc_data cl1) (payload op1) of
                         Inl e \<Rightarrow> (Some (HandlerError e), cl1)
                       | Inr d \<Rightarrow> emit (Ev_op (payload op1) source) (cl1\<lparr> doc_data := d \<rparr>)))
      else if op_create op1 \<noteq> None then
        (case reg (create_type (the (op_create op1))) of
           None \<Rightarrow>
             emit (Ev_error (Error (''Unknown type: '' @ create_type (the (op_create op1))))) cl
         | Some ty \<Rightarrow>
             (case type_create ty (create_data (the (op_create op1))) of
                Inl e \<Rightarrow> (Some (HandlerError e), cl\<lparr> doc_type := Some ty \<rparr>)
              | Inr d \<Rightarrow> emit (Ev_create source) (cl\<lparr> doc_type := Some ty, doc_data := d \<rparr>)))
      else if op_del op1 = Some True then
        emit (Ev_del (doc_data cl) source) (cl\<lparr> doc_type := None, doc_data := Undefined \<rparr>)
      else (None, cl))"

text \<open>\<open>Doc._opAcknowledged(message)\<close>, called with an operation in flight.\<close>

definition opAcknowledged :: "OpMessage \<Rightarrow> PendingOp \<Rightarrow> Client \<Rightarrow> Client outcome" where
  "opAcknowledged msg inflight cl =
     (let cl1 = (if op_create inflight \<noteq> None then cl\<lparr> version := op_v msg \<rparr>
                 else cl\<lparr> version := Some (js_increment
                                               (case version cl of None \<Rightarrow> 0 | Some n \<Rightarrow> n)) \<rparr>);
          cl2 = cl1\<lparr> effects := effects cl1 @ call_all inflight None \<rparr>;
          cl3 = cl2\<lparr> inflightOp := None \<rparr>
      in and_then (flush cl3) (emit Ev_ack))"

text \<open>
  \<open>Doc._handleOp(error, message)\<close>. With an error the operation in flight, if there is
  one, is rolled back. Otherwise the message is the acknowledgement of the operation in
  flight, or a remote operation; a remote operation is dropped unless its version is the
  document's, and then the operation in flight and the queue are rebased over it before
  it is applied. \<open>apply_remote\<close> is the part from the loop over the queue on, and
  \<open>handle_remote\<close> the part from the version checks on.
\<close>

definition apply_remote :: "TypeRegistry \<Rightarrow> OpMessage \<Rightarrow> int \<Rightarrow> Client \<Rightarrow> Client outcome" where
  "apply_remote reg msg ver cl =
     (case transform_queue (pendingOps cl) msg of
        Queue_failed err \<Rightarrow> hardRollback err cl
      | Queue_threw x q \<Rightarrow> (Some x, cl\<lparr> pendingOps := q \<rparr>)
      | Queue_transformed q msg' \<Rightarrow>
          otApply reg msg' False
            (cl\<lparr> pendingOps := q, version := Some (js_increment ver) \<rparr>))"

definition handle_remote :: "TypeRegistry \<Rightarrow> OpMessage \<Rightarrow> Client \<Rightarrow> Client outcome" where
  "handle_remote reg msg cl =
     (case (version cl, op_v msg) of
        (Some ver, Some v) \<Rightarrow>
          if v > ver then (None, record_effect Warned cl)
          else if v < ver then (None, cl)
          else
            (case inflightOp cl of
               None \<Rightarrow> apply_remote reg msg ver cl
             | Some inflight \<Rightarrow>
                 (case transformX inflight msg of
                    Failed err \<Rightarrow> hardRollback err cl
                  | Threw x \<Rightarrow> (Some x, cl)
                  | Transformed inflight' msg' \<Rightarrow>
                      apply_remote reg msg' ver (cl\<lparr> inflightOp := Some inflight' \<rparr>)))
      | _ \<Rightarrow> (None, cl))"

definition handleOp ::
  "TypeRegistry \<Rightarrow> ErrorInfo option \<Rightarrow> OpMessage \<Rightarrow> Client \<Rightarrow> Client outcome" where
  "handleOp reg error' msg cl =
     (case error' of
        Some err \<Rightarrow>
          (if inflightOp cl \<noteq> None then rollback (Error (err_message err)) cl
           else emit (Ev_error (Error (err_message err))) cl)
      | None \<Rightarrow>
          (case inflightOp cl of
             None \<Rightarrow> handle_remote reg msg cl
           | Some inflight \<Rightarrow>
               if op_src msg = op_src inflight \<and> op_seq msg = op_seq inflight
               then opAcknowledged msg inflight cl
               else handle_remote reg msg cl))"

section \<open>The operation log as an invariant of the store\<close>

text \<open>The stored array of a document's operations and the stored version of the document
  (\<open>0\<close> when there is no snapshot), read directly from the two maps.\<close>

definition doc_log :: "MemoryDb \<Rightarrow> string \<Rightarrow> string \<Rightarrow> StoredOp list" where
  "doc_log db collection i =
     (case lookup2 (db_ops db) collection i of None \<Rightarrow> [] | Some l \<Rightarrow> l)"

definition doc_version :: "MemoryDb \<Rightarrow> string \<Rightarrow> string \<Rightarrow> int" where
  "doc_version db collection i =
     (case lookup2 (db_snapshots db) collection i of None \<Rightarrow> 0 | Some s \<Rightarrow> snap_v s)"

text \<open>The log of a document is contiguous: its versions are \<open>0, 1, 2, \<dots>\<close> in order, the
  stored version is its length, and it is no longer than an array can be.\<close>

definition log_contiguous :: "MemoryDb \<Rightarrow> string \<Rightarrow> string \<Rightarrow> bool" where
  "log_contiguous db collection i =
     (map op_v (doc_log db collection i)
        = map (\<lambda>k. Some (int k)) [0..<length (doc_log db collection i)] \<and>
      doc_version db collection i = int (length (doc_log db collection i)) \<and>
      int (length (doc_log db collection i)) \<le> max_array_length)"

text \<open>
  The commits of the other tasks are commits of other runs of \<open>submitOp\<close>, which commits
  an operation together with the snapshot it has just applied it to: the snapshot's
  version is one more than the operation's (the operation's version is the stored one,
  which stays below the length an array can have, where the increment is exact). \<open>versioned\<close> says so of a call, and
  \<open>turn_versioned\<close> of all calls of a turn.
\<close>

definition versioned :: "commit_call \<Rightarrow> bool" where
  "versioned cc = (op_v (cc_op cc) = Some (snap_v (cc_snapshot cc) - 1))"

definition turn_versioned :: "turn \<Rightarrow> bool" where
  "turn_versioned t =
     ((\<forall>cc \<in> set (after_getSnapshot t). versioned cc) \<and>
      (\<forall>cc \<in> set (after_getOps t). versioned cc) \<and>
      (\<forall>cc \<in> set (after_commit t). versioned cc))"

fun outcome_db :: "attempt_outcome \<Rightarrow> MemoryDb" where
  "outcome_db (Committed r db) = db"
| "outcome_db (Conflict db) = db"
| "outcome_db (Thrown e db) = db"

text \<open>The stores that runs of \<open>submitOp\<close> produce from the empty store, one run after
  another, each possibly interleaved with commits of concurrent runs.\<close>

inductive reachable :: "TypeRegistry \<Rightarrow> MemoryDb \<Rightarrow> bool" for reg :: TypeRegistry where
  start: "reachable reg new_MemoryDb"
| submit: "reachable reg db \<Longrightarrow> \<forall>n. turn_versioned (sched n) \<Longrightarrow>
           submitOp reg db collection i op1 maxRetries sched = (result, db', op') \<Longrightarrow>
           reachable reg db'"

section \<open>Scenarios\<close>

text \<open>
  Concrete runs used below. A text document \<open>d1\<close> is created as \<open>hello\<close> by client \<open>a\<close>;
  client \<open>b\<close> inserts \<open>Y\<close> at 0 and client \<open>a\<close> inserts \<open>X\<close> at 4, both against version 1;
  later \<open>b\<close> deletes the document. \<open>quiet_schedule\<close> lets no other task run; in \<open>racing\<close> the
  commit of \<open>b\<close>'s insertion runs while the first pass of \<open>a\<close>'s submission awaits its
  snapshot.
\<close>

definition quiet_schedule :: "nat \<Rightarrow> turn" where
  "quiet_schedule n = quiet"

definition text_uri :: string where
  "text_uri = ''http://sharejs.org/types/simple-text''"

definition create_hello :: Op where
  "create_hello =
     empty_op\<lparr> op_create := Some \<lparr> create_type = ''simple-text'', create_data = Str ''hello'' \<rparr>,
               op_v := Some 0, op_src := Some ''a'', op_seq := Some 1 \<rparr>"

definition insert_X :: Op where
  "insert_X = empty_op\<lparr> op_op := Some (encode_TextOp (InsertOp 4 ''X'')),
                        op_v := Some 1, op_src := Some ''a'', op_seq := Some 2 \<rparr>"

definition insert_Y :: Op where
  "insert_Y = empty_op\<lparr> op_op := Some (encode_TextOp (InsertOp 0 ''Y'')),
                        op_v := Some 1, op_src := Some ''b'', op_seq := Some 1 \<rparr>"

definition delete_doc :: Op where
  "delete_doc = empty_op\<lparr> op_del := Some True,
                          op_v := Some 3, op_src := Some ''b'', op_seq := Some 2 \<rparr>"

definition after_submit :: "MemoryDb \<Rightarrow> string \<Rightarrow> Op \<Rightarrow> (nat \<Rightarrow> turn) \<Rightarrow> MemoryDb" where
  "after_submit db i op1 sched = fst (snd (submitOp types db ''docs'' i op1 None sched))"

definition db_hello :: MemoryDb where
  "db_hello = after_submit new_MemoryDb ''d1'' create_hello quiet_schedule"

definition db_Y :: MemoryDb where
  "db_Y = after_submit db_hello ''d1'' insert_Y quiet_schedule"

definition db_YX :: MemoryDb where
  "db_YX = after_submit db_Y ''d1'' insert_X quiet_schedule"

definition db_deleted :: MemoryDb where
  "db_deleted = after_submit db_YX ''d1'' delete_doc quiet_schedule"

definition commit_Y :: commit_call where
  "commit_Y =
     \<lparr> cc_collection = ''docs'', cc_id = ''d1'', cc_op = insert_Y,
       cc_snapshot = \<lparr> snap_id = ''d1'', snap_v = 2, snap_type = Some text_uri,
                       snap_data = Str ''Yhello'', snap_m = None \<rparr>,
       cc_now = 0 \<rparr>"

definition racing :: "nat \<Rightarrow> turn" where
  "racing n = (if n = 0 then quiet\<lparr> after_getSnapshot := [commit_Y] \<rparr> else quiet)"

definition db_race :: MemoryDb where
  "db_race = after_submit db_hello ''d1'' insert_X racing"

text \<open>A counter document \<open>c1\<close> whose client sends the empty string as its \<open>src\<close>.\<close>

definition create_counter :: Op where
  "create_counter =
     empty_op\<lparr> op_create := Some \<lparr> create_type = ''counter'', create_data = Num 0 \<rparr>,
               op_v := Some 0, op_src := Some [], op_seq := Some 1 \<rparr>"

definition add_5 :: Op where
  "add_5 = empty_op\<lparr> op_op := Some (Num 5), op_v := Some 1, op_src := Some [], op_seq := Some 2 \<rparr>"

definition db_counter :: MemoryDb where
  "db_counter = after_submit new_MemoryDb ''c1'' create_counter quiet_schedule"

definition db_5 :: MemoryDb where
  "db_5 = after_submit db_counter ''c1'' add_5 quiet_schedule"

text \<open>
  A replica of \<open>d1\<close> at version 1 whose insertion of \<open>X\<close> is in flight and whose insertion
  of \<open>Z\<close> waits in the queue, each with three callback entries of which one is
  \<open>undefined\<close>, and the rejection of the operation in flight by the server. \<open>closed_replica\<close>
  is the same replica after \<open>Connection.close()\<close>, which clears \<open>canSend\<close> and tells no
  document.
\<close>

definition pending_X :: PendingOp where
  "pending_X =
     \<lparr> op_create = None, op_del = None,
       op_op = Some (encode_TextOp (InsertOp 4 ''X'')),
       op_v = Some 1, op_src = Some ''a'', op_seq = Some 2,
       pend_type = Some textType, callbacks = [Some 1, None, Some 2] \<rparr>"

definition pending_Z :: PendingOp where
  "pending_Z =
     \<lparr> op_create = None, op_del = None,
       op_op = Some (encode_TextOp (InsertOp 0 ''Z'')),
       op_v = Some 1, op_src = None, op_seq = None,
       pend_type = Some textType, callbacks = [None, Some 3, Some 4] \<rparr>"

definition replica :: Client where
  "replica =
     \<lparr> conn_id = ''a'', conn_seq = 3, canSend = True, has_transport = True,
       doc_collection = ''docs'', doc_id = ''d1'',
       version = Some 1, doc_type = Some textType, doc_data = Str ''ZhellXo'',
       subscribed = True, inflightOp = Some pending_X, pendingOps = [pending_Z],
       has_error_listener = True, effects = [] \<rparr>"

definition closed_replica :: Client where
  "closed_replica = replica\<lparr> canSend := False \<rparr>"

definition was_deleted :: ErrorInfo where
  "was_deleted = \<lparr> err_code = ''ERR_DOC_WAS_DELETED'', err_message = ''Document was deleted'' \<rparr>"

definition rejection :: OpMessage where
  "rejection =
     \<lparr> op_create = None, op_del = None, op_op = None, op_v = None,
       op_src = Some ''a'', op_seq = Some 2,
       msg_c = ''docs'', msg_d = ''d1'', msg_error = Some was_deleted \<rparr>"

section \<open>Properties of the increment\<close>

lemma js_increment_safe: "- (2 ^ 53) \<le> x \<Longrightarrow> x < 2 ^ 53 \<Longrightarrow> js_increment x = x + 1"
  by (auto simp: js_increment_def round_to_double_def)

lemma js_increment_at_limit: "js_increment 9007199254740992 = 9007199254740992"
  by code_simp

lemma js_increment_below_limit: "js_increment (- 9007199254740994) = - 9007199254740992"
  by code_simp

section \<open>Properties of the two reference types\<close>

lemma slice_prefix: "0 \<le> pos \<Longrightarrow> slice s 0 (Some pos) = take (nat pos) s"
  by (simp add: slice_def slice_index_def Let_def min_def)

lemma slice_suffix: "0 \<le> pos \<Longrightarrow> slice s pos None = drop (nat pos) s"
  by (simp add: slice_def slice_index_def Let_def min_def)

lemma decode_encode_TextOp: "decode_TextOp (encode_TextOp o1) = Some o1"
  by (cases o1) (simp_all add: decode_TextOp_def)

lemma text_apply_insert: "0 \<le> pos \<Longrightarrow>
    text_apply s (InsertOp pos txt) = take (nat pos) s @ txt @ drop (nat pos) s"
  by (simp add: slice_prefix slice_suffix)

lemma text_apply_delete: "0 \<le> pos \<Longrightarrow> 0 \<le> cnt \<Longrightarrow>
    text_apply s (DeleteOp pos cnt) = take (nat pos) s @ drop (nat (pos + cnt)) s"
  by (simp add: slice_prefix slice_suffix)

text \<open>
  Claim C10. \<open>textType.apply\<close> returns a string, without throwing, for every string
  snapshot and every insert or delete with non-negative \<open>pos\<close> and \<open>count\<close>, wherever the
  positions lie: the result is the snapshot cut at \<open>pos\<close> (and at \<open>pos + count\<close>), so an
  insert beyond the end appends and a delete running past the end removes what is there.
\<close>

theorem text_apply_total:
  "0 \<le> pos \<Longrightarrow> 0 \<le> cnt \<Longrightarrow>
     type_apply textType (Str s) (encode_TextOp (InsertOp pos txt))
       = Inr (Str (take (nat pos) s @ txt @ drop (nat pos) s)) \<and>
     (int (length s) \<le> pos \<longrightarrow>
        type_apply textType (Str s) (encode_TextOp (InsertOp pos txt)) = Inr (Str (s @ txt))) \<and>
     type_apply textType (Str s) (encode_TextOp (DeleteOp pos cnt))
       = Inr (Str (take (nat pos) s @ drop (nat (pos + cnt)) s)) \<and>
     (int (length s) \<le> pos + cnt \<longrightarrow>
        type_apply textType (Str s) (encode_TextOp (DeleteOp pos cnt)) = Inr (Str (take (nat pos) s)))"
proof -
  assume nonneg: "0 \<le> pos" "0 \<le> cnt"
  have ins: "type_apply textType (Str s) (encode_TextOp (InsertOp pos txt))
      = Inr (Str (take (nat pos) s @ txt @ drop (nat pos) s))"
    using nonneg
    by (simp only: textType_def OTType.simps text_apply_js_def decode_encode_TextOp
        text_apply_insert prod.case jsval.case option.case)
  have del: "type_apply textType (Str s) (encode_TextOp (DeleteOp pos cnt))
      = Inr (Str (take (nat pos) s @ drop (nat (pos + cnt)) s))"
    using nonneg
    by (simp only: textType_def OTType.simps text_apply_js_def decode_encode_TextOp
        text_apply_delete prod.case jsval.case option.case)
  have ins_end: "take (nat pos) s @ txt @ drop (nat pos) s = s @ txt"
    if "int (length s) \<le> pos"
    using that by simp
  have del_end: "take (nat pos) s @ drop (nat (pos + cnt)) s = take (nat pos) s"
    if "int (length s) \<le> pos + cnt"
    using that by simp
  show ?thesis
    using ins del ins_end del_end by simp
qed

theorem text_apply_total_witness:
  "(0::int) \<le> 9 \<and> (0::int) \<le> 10 \<and> int (length ''hello'') \<le> 9 \<and>
   type_apply textType (Str ''hello'') (encode_TextOp (InsertOp 9 ''X'')) = Inr (Str ''helloX'') \<and>
   type_apply textType (Str ''hello'') (encode_TextOp (DeleteOp 9 10)) = Inr (Str ''hello'')"
  using text_apply_total [of 9 10 "''hello''" "''X''"] by simp

lemma insert_into_insert_before:
  assumes "n1 \<le> n2" "n2 \<le> length s"
  shows "take (n2 + length t1) (take n1 s @ t1 @ drop n1 s) @ t2 @
           drop (n2 + length t1) (take n1 s @ t1 @ drop n1 s)
       = take n1 (take n2 s @ t2 @ drop n2 s) @ t1 @ drop n1 (take n2 s @ t2 @ drop n2 s)"
proof -
  obtain k where k: "n2 = n1 + k" using assms(1) by (auto simp: le_iff_add)
  have a: "take (n2 + length t1) (take n1 s @ t1 @ drop n1 s)
      = take n1 s @ t1 @ take k (drop n1 s)"
    using assms k by (auto simp: min_def)
  have b: "drop (n2 + length t1) (take n1 s @ t1 @ drop n1 s) = drop k (drop n1 s)"
    using assms k by (auto simp: min_def add.commute)
  have c: "take n1 (take n2 s @ t2 @ drop n2 s) = take n1 s"
    using assms k by (simp add: min_def)
  have d: "drop n1 (take n2 s @ t2 @ drop n2 s) = take k (drop n1 s) @ t2 @ drop n2 s"
    using assms k by (simp add: min_def drop_take)
  show ?thesis using a b c d k by (simp add: add.commute)
qed

text \<open>Two insertions valid on the same text do converge, whatever their positions: the
  tie at equal positions is broken by the side.\<close>

lemma tp1_insert_insert:
  assumes "valid_on s (InsertOp p1 t1)" and "valid_on s (InsertOp p2 t2)"
  shows "text_apply (text_apply s (InsertOp p1 t1))
                    (text_transform (InsertOp p2 t2) (InsertOp p1 t1) Right)
       = text_apply (text_apply s (InsertOp p2 t2))
                    (text_transform (InsertOp p1 t1) (InsertOp p2 t2) Left)"
proof -
  obtain n1 n2 where n: "p1 = int n1" "p2 = int n2" "n1 \<le> length s" "n2 \<le> length s"
    using assms by (auto simp: nonneg_int_cases elim!: nonneg_int_cases)
  show ?thesis
  proof (cases "n1 \<le> n2")
    case True
    have "nat (int n2 + int (length t1)) = n2 + length t1" by simp
    then show ?thesis
      using True n insert_into_insert_before [of n1 n2 s t1 t2]
      by (simp add: text_apply_insert del: text_apply.simps)
  next
    case False
    then have le: "n2 \<le> n1" by simp
    have "nat (int n1 + int (length t2)) = n1 + length t2" by simp
    then show ?thesis
      using False n insert_into_insert_before [of n2 n1 s t2 t1, symmetric]
      by (simp add: text_apply_insert del: text_apply.simps)
  qed
qed

text \<open>
  Claim C1. The convergence property asks that, for operations \<open>a\<close> and \<open>b\<close> valid on \<open>s\<close>,
  applying \<open>a\<close> and then \<open>transform(b, a, 'right')\<close> gives the same text as applying \<open>b\<close> and
  then \<open>transform(a, b, 'left')\<close>. On \<open>hello\<close>, with \<open>a\<close> the insertion of \<open>X\<close> at 2 and \<open>b\<close>
  the deletion of two characters at 1, the first path ends in \<open>hllo\<close> and the second in
  \<open>hXlo\<close>: a delete transformed against an insert strictly inside its range keeps its
  position and count, and removes the inserted character with one of its own.
\<close>

theorem text_transform_diverges:
  "valid_on ''hello'' (InsertOp 2 ''X'') \<and> valid_on ''hello'' (DeleteOp 1 2) \<and>
   text_transform (DeleteOp 1 2) (InsertOp 2 ''X'') Right = DeleteOp 1 2 \<and>
   text_apply (text_apply ''hello'' (InsertOp 2 ''X''))
              (text_transform (DeleteOp 1 2) (InsertOp 2 ''X'') Right) = ''hllo'' \<and>
   text_apply (text_apply ''hello'' (DeleteOp 1 2))
              (text_transform (InsertOp 2 ''X'') (DeleteOp 1 2) Left) = ''hXlo''"
  by (simp add: slice_def slice_index_def)

lemma ToInt32_in_range:
  assumes "- 2147483648 \<le> n" and "n < 2147483648"
  shows "(let int32bit = (n::int) mod 2 ^ 32
          in if int32bit \<ge> 2 ^ 31 then int32bit - 2 ^ 32 else int32bit) = n"
proof (cases "0 \<le> n")
  case True
  then have "n mod 4294967296 = n" using assms by simp
  then show ?thesis using assms by (simp add: Let_def)
next
  case False
  have "(n + 4294967296) mod 4294967296 = n + 4294967296"
    using assms False
    by (intro mod_pos_pos_trivial) auto
  then have "n mod 4294967296 = n + 4294967296" by simp
  then show ?thesis using assms False by (simp add: Let_def)
qed

lemma truncate_number_floor_ceiling:
  "truncate_number x = (if x < 0 then \<lceil>x\<rceil> else \<lfloor>x\<rfloor>)"
  by (simp add: truncate_number_def ceiling_def)

lemma wrap_32:
  fixes t :: int
  shows "(if t mod 4294967296 \<ge> 2147483648 then t mod 4294967296 - 4294967296
          else t mod 4294967296)
           = (t + 2147483648) mod 4294967296 - 2147483648"
proof -
  let ?m = "t mod 4294967296"
  have m: "0 \<le> ?m" "?m < 4294967296" by simp_all
  have e: "(t + 2147483648) mod 4294967296 = (?m + 2147483648) mod 4294967296"
    by (simp add: mod_add_left_eq)
  show ?thesis
  proof (cases "?m \<ge> 2147483648")
    case True
    have "(?m - 2147483648 + 4294967296) mod 4294967296 = (?m - 2147483648) mod 4294967296"
      by (rule mod_add_self2)
    moreover have "?m - 2147483648 + 4294967296 = ?m + 2147483648" by simp
    ultimately have "(?m + 2147483648) mod 4294967296 = (?m - 2147483648) mod 4294967296"
      by (simp only:)
    also have "\<dots> = ?m - 2147483648"
      using True m by (intro mod_pos_pos_trivial) auto
    finally have "(t + 2147483648) mod 4294967296 = ?m - 2147483648" using e by (simp only:)
    then show ?thesis using True by simp
  next
    case False
    have "(?m + 2147483648) mod 4294967296 = ?m + 2147483648"
      using False m by (intro mod_pos_pos_trivial) auto
    then have "(t + 2147483648) mod 4294967296 = ?m + 2147483648" using e by (simp only:)
    then show ?thesis using False by simp
  qed
qed

lemma ToInt32_wrap:
  "ToInt32 x = (truncate_number x + 2147483648) mod 4294967296 - 2147483648"
proof -
  have "ToInt32 x = (if truncate_number x mod 4294967296 \<ge> 2147483648
                     then truncate_number x mod 4294967296 - 4294967296
                     else truncate_number x mod 4294967296)"
    by (simp add: ToInt32_def Let_def)
  then show ?thesis by (simp only: wrap_32)
qed


lemma ToInt32_bounds: "- 2147483648 \<le> ToInt32 x \<and> ToInt32 x < 2147483648"
proof -
  let ?r = "(truncate_number x + 2147483648) mod 4294967296"
  have "0 \<le> ?r" "?r < 4294967296" by simp_all
  then show ?thesis unfolding ToInt32_wrap by linarith
qed

lemma ToInt32_congruent: "(ToInt32 x - truncate_number x) mod 4294967296 = 0"
proof -
  have "(ToInt32 x - truncate_number x) mod 4294967296
          = ((truncate_number x + 2147483648) mod 4294967296 - (truncate_number x + 2147483648))
              mod 4294967296"
    unfolding ToInt32_wrap by (simp add: algebra_simps)
  also have "\<dots> = ((truncate_number x + 2147483648) - (truncate_number x + 2147483648))
              mod 4294967296"
    by (rule mod_diff_left_eq)
  finally show ?thesis by simp
qed

text \<open>
  Claim C5, as the code has it. \<open>create\<close> with no input is \<open>0\<close>. For a number \<open>x\<close>, \<open>create(x)\<close>
  is \<open>x\<close> truncated toward zero (the floor of a non-negative \<open>x\<close>, the ceiling of a negative
  one) and wrapped to a signed 32-bit integer, that is moved by a multiple of \<open>2^32\<close> into
  \<open>- 2^31 \<dots> 2^31 - 1\<close>. So it is the floor of \<open>x\<close> for \<open>0 \<le> x < 2^31\<close> and the ceiling of \<open>x\<close>
  for \<open>- 2^31 - 1 < x < 0\<close>; and it is the floor of \<open>x\<close> exactly when \<open>0 \<le> x < 2^31\<close> or \<open>x\<close> is
  a negative integer not below \<open>- 2^31\<close>.
\<close>

theorem counter_create_truncates:
  "counter_create Undefined = Inr (Num 0) \<and>
   counter_create (Num x) =
     Inr (Num (of_int (((if x < 0 then \<lceil>x\<rceil> else \<lfloor>x\<rfloor>) + 2 ^ 31) mod 2 ^ 32 - 2 ^ 31))) \<and>
   (0 \<le> x \<and> x < 2 ^ 31 \<longrightarrow> counter_create (Num x) = Inr (Num (of_int \<lfloor>x\<rfloor>))) \<and>
   (- (2 ^ 31) - 1 < x \<and> x < 0 \<longrightarrow> counter_create (Num x) = Inr (Num (of_int \<lceil>x\<rceil>))) \<and>
   (counter_create (Num x) = Inr (Num (of_int \<lfloor>x\<rfloor>)) \<longleftrightarrow>
      (0 \<le> x \<and> x < 2 ^ 31) \<or> (- (2 ^ 31) \<le> x \<and> x < 0 \<and> x = of_int \<lfloor>x\<rfloor>))"
proof -
  have wrap: "counter_create (Num x) =
     Inr (Num (of_int (((if x < 0 then \<lceil>x\<rceil> else \<lfloor>x\<rfloor>) + 2 ^ 31) mod 2 ^ 32 - 2 ^ 31)))"
    using ToInt32_wrap [of x] by (simp add: truncate_number_floor_ceiling)
  have pos: "ToInt32 x = \<lfloor>x\<rfloor>" if a: "0 \<le> x" "x < 2 ^ 31"
  proof -
    have t: "truncate_number x = \<lfloor>x\<rfloor>" using a by (simp add: truncate_number_def)
    have "0 \<le> \<lfloor>x\<rfloor>" using a by simp
    moreover have "\<lfloor>x\<rfloor> < 2147483648" using a by (simp add: floor_less_iff)
    ultimately show ?thesis
      unfolding ToInt32_def t using ToInt32_in_range [of "\<lfloor>x\<rfloor>"] by simp
  qed
  have neg: "ToInt32 x = \<lceil>x\<rceil>" if a: "- (2 ^ 31) - 1 < x" "x < 0"
  proof -
    have t: "truncate_number x = \<lceil>x\<rceil>" using a by (simp add: truncate_number_def ceiling_def)
    have "\<lceil>x\<rceil> < 2147483648" using a by (simp add: ceiling_less_iff)
    moreover have "- 2147483648 \<le> \<lceil>x\<rceil>" using a by (simp add: le_ceiling_iff)
    ultimately show ?thesis
      unfolding ToInt32_def t using ToInt32_in_range [of "\<lceil>x\<rceil>"] by simp
  qed
  have floor_only: "(0 \<le> x \<and> x < 2 ^ 31) \<or> (- (2 ^ 31) \<le> x \<and> x < 0 \<and> x = of_int \<lfloor>x\<rfloor>)"
    if eq: "ToInt32 x = \<lfloor>x\<rfloor>"
  proof (cases "0 \<le> x")
    case True
    have "\<lfloor>x\<rfloor> < 2147483648" using ToInt32_bounds [of x] eq by simp
    then have "x < 2 ^ 31" by (simp add: floor_less_iff)
    then show ?thesis using True by simp
  next
    case False
    then have t: "truncate_number x = \<lceil>x\<rceil>" by (simp add: truncate_number_floor_ceiling)
    have "- 2147483648 \<le> \<lfloor>x\<rfloor>" using ToInt32_bounds [of x] eq by simp
    then have low: "- (2 ^ 31) \<le> x" by (simp add: le_floor_iff)
    have c: "(\<lfloor>x\<rfloor> - \<lceil>x\<rceil>) mod 4294967296 = 0"
      using ToInt32_congruent [of x] eq t by simp
    have "\<lceil>x\<rceil> - \<lfloor>x\<rfloor> \<le> 1" by (rule ceiling_diff_floor_le_1)
    moreover have "\<lfloor>x\<rfloor> \<le> \<lceil>x\<rceil>" by (rule floor_le_ceiling)
    ultimately have "\<lfloor>x\<rfloor> - \<lceil>x\<rceil> = 0 \<or> \<lfloor>x\<rfloor> - \<lceil>x\<rceil> = - 1" by linarith
    then have "\<lceil>x\<rceil> = \<lfloor>x\<rfloor>" using c by auto
    then have "x \<le> of_int \<lfloor>x\<rfloor>" by (metis le_of_int_ceiling)
    moreover have "of_int \<lfloor>x\<rfloor> \<le> x" by simp
    ultimately have "x = of_int \<lfloor>x\<rfloor>" by (rule order_antisym)
    then show ?thesis using False low by simp
  qed
  have integer: "ToInt32 x = \<lfloor>x\<rfloor>" if a: "- (2 ^ 31) \<le> x" "x < 0" "x = of_int \<lfloor>x\<rfloor>"
  proof -
    have "\<lceil>x\<rceil> = \<lfloor>x\<rfloor>" using a(3) by (metis ceiling_of_int)
    then show ?thesis using neg a by simp
  qed
  show ?thesis using wrap pos neg floor_only integer by auto
qed

theorem counter_create_truncates_witness:
  "(0::rat) \<le> 37 / 10 \<and> (37 / 10 :: rat) < 2 ^ 31 \<and>
   counter_create (Num (37 / 10)) = Inr (Num 3) \<and>
   - (2 ^ 31) - 1 < (- 37 / 10 :: rat) \<and> (- 37 / 10 :: rat) < 0 \<and>
   counter_create (Num (- 37 / 10)) = Inr (Num (- 3)) \<and>
   \<not> (2 ^ 31 :: rat) < 2 ^ 31 \<and>
   counter_create (Num (2 ^ 31)) = Inr (Num (- (2 ^ 31))) \<and>
   counter_create (Num (2 ^ 31)) \<noteq> Inr (Num (of_int \<lfloor>2 ^ 31 :: rat\<rfloor>)) \<and>
   counter_create (Num (2 ^ 32 + 11 / 2)) = Inr (Num 5)"
proof -
  have fl: "\<lfloor>37 / 10 :: rat\<rfloor> = 3" by code_simp
  have cl: "\<lceil>- 37 / 10 :: rat\<rceil> = - 3" by code_simp
  have big: "\<lfloor>2 ^ 32 + 11 / 2 :: rat\<rfloor> = 4294967301" by code_simp
  have a: "counter_create (Num (37 / 10)) = Inr (Num 3)"
    using counter_create_truncates [of "37 / 10"] fl by simp
  have b: "counter_create (Num (- 37 / 10)) = Inr (Num (- 3))"
    using counter_create_truncates [of "- 37 / 10"] cl by simp
  have c: "counter_create (Num (2 ^ 31)) = Inr (Num (- (2 ^ 31)))"
    "counter_create (Num (2 ^ 31)) \<noteq> Inr (Num (of_int \<lfloor>2 ^ 31 :: rat\<rfloor>))"
    using counter_create_truncates [of "2 ^ 31"] by simp_all
  have d: "counter_create (Num (2 ^ 32 + 11 / 2)) = Inr (Num 5)"
    using counter_create_truncates [of "2 ^ 32 + 11 / 2"] big by simp
  show ?thesis using a b c d by simp
qed

text \<open>The claim as the specification words it (the floor, for every number) fails at \<open>-1.5\<close>,
  where \<open>create\<close> gives \<open>-1\<close> and the floor is \<open>-2\<close>.\<close>

theorem counter_create_not_floor:
  "counter_create (Num (- 3 / 2)) = Inr (Num (- 1)) \<and>
   counter_create (Num (- 3 / 2)) \<noteq> Inr (Num (of_int \<lfloor>- 3 / 2 :: rat\<rfloor>))"
  by code_simp


section \<open>Properties of the kernel\<close>

lemmas registry_simps = types_def register_def counterType_def textType_def

lemmas guard_simps = isCreateOp_def isEditOp_def isDeleteOp_def payload_def

text \<open>
  Claim C4, as the code has it. \<open>checkOp\<close> accepts a value only if it carries at least one
  of the three shapes (a non-null \<open>create\<close>, \<open>del: true\<close>, or an \<open>op\<close> property), and a
  value carrying none of them is rejected as badly formed. The shapes are tried in the
  order \<open>create\<close>, \<open>del\<close>, \<open>op\<close> and only the first one present is validated, whatever
  else the object carries: an object whose \<open>create\<close> is an object with a registered type,
  an object with no \<open>create\<close> and \<open>del: true\<close>, and an object with neither and an \<open>op\<close>
  property are each accepted exactly when \<open>src\<close> and \<open>seq\<close> are both absent or are a string
  and a number, and are rejected as badly formed otherwise. A first shape that is not
  valid is rejected: a \<open>create\<close> that is not an object or has no string \<open>type\<close>, and a \<open>del\<close>
  other than \<open>true\<close>, as badly formed; a \<open>create\<close> of a type not in the registry as not
  recognized.
\<close>

theorem checkOp_shapes:
  "(checkOp reg x = Inr () \<longrightarrow>
      (has_prop ''create'' x \<and> \<not> nullish (get_prop x ''create'')) \<or>
      (has_prop ''del'' x \<and> get_prop x ''del'' = Bool True) \<or>
      has_prop ''op'' x) \<and>
   (\<not> (has_prop ''create'' x \<and> \<not> nullish (get_prop x ''create'')) \<and>
    \<not> (has_prop ''del'' x \<and> \<not> nullish (get_prop x ''del'')) \<and>
    \<not> has_prop ''op'' x \<longrightarrow>
      checkOp reg x = Inl (OTError ERR_OT_OP_BADLY_FORMED)) \<and>
   (has_prop ''create'' x \<and> typeof (get_prop x ''create'') = ''object'' \<and>
    \<not> nullish (get_prop x ''create'') \<and>
    get_prop (get_prop x ''create'') ''type'' = Str ty \<and> reg ty \<noteq> None \<longrightarrow>
      checkOp reg x =
        (if (nullish (get_prop x ''src'') \<and> nullish (get_prop x ''seq'')) \<or>
            (typeof (get_prop x ''src'') = ''string'' \<and> typeof (get_prop x ''seq'') = ''number'')
         then Inr () else Inl (OTError ERR_OT_OP_BADLY_FORMED))) \<and>
   (\<not> (has_prop ''create'' x \<and> \<not> nullish (get_prop x ''create'')) \<and>
    has_prop ''del'' x \<and> get_prop x ''del'' = Bool True \<longrightarrow>
      checkOp reg x =
        (if (nullish (get_prop x ''src'') \<and> nullish (get_prop x ''seq'')) \<or>
            (typeof (get_prop x ''src'') = ''string'' \<and> typeof (get_prop x ''seq'') = ''number'')
         then Inr () else Inl (OTError ERR_OT_OP_BADLY_FORMED))) \<and>
   (\<not> (has_prop ''create'' x \<and> \<not> nullish (get_prop x ''create'')) \<and>
    \<not> (has_prop ''del'' x \<and> \<not> nullish (get_prop x ''del'')) \<and>
    has_prop ''op'' x \<longrightarrow>
      checkOp reg x =
        (if (nullish (get_prop x ''src'') \<and> nullish (get_prop x ''seq'')) \<or>
            (typeof (get_prop x ''src'') = ''string'' \<and> typeof (get_prop x ''seq'') = ''number'')
         then Inr () else Inl (OTError ERR_OT_OP_BADLY_FORMED))) \<and>
   (has_prop ''create'' x \<and> \<not> nullish (get_prop x ''create'') \<and>
    (typeof (get_prop x ''create'') \<noteq> ''object'' \<or>
     typeof (get_prop (get_prop x ''create'') ''type'') \<noteq> ''string'') \<longrightarrow>
      checkOp reg x = Inl (OTError ERR_OT_OP_BADLY_FORMED)) \<and>
   (has_prop ''create'' x \<and> typeof (get_prop x ''create'') = ''object'' \<and>
    \<not> nullish (get_prop x ''create'') \<and>
    get_prop (get_prop x ''create'') ''type'' = Str ty \<and> reg ty = None \<longrightarrow>
      checkOp reg x = Inl (OTError ERR_DOC_TYPE_NOT_RECOGNIZED)) \<and>
   (\<not> (has_prop ''create'' x \<and> \<not> nullish (get_prop x ''create'')) \<and>
    has_prop ''del'' x \<and> \<not> nullish (get_prop x ''del'') \<and> get_prop x ''del'' \<noteq> Bool True \<longrightarrow>
      checkOp reg x = Inl (OTError ERR_OT_OP_BADLY_FORMED))"
proof -
  let ?pair = "(nullish (get_prop x ''src'') \<and> nullish (get_prop x ''seq'')) \<or>
     (typeof (get_prop x ''src'') = ''string'' \<and> typeof (get_prop x ''seq'') = ''number'')"
  have pair: "check_src_seq x = (if ?pair then Inr () else Inl (OTError ERR_OT_OP_BADLY_FORMED))"
    by (cases "get_prop x ''src''"; cases "get_prop x ''seq''")
      (simp_all add: check_src_seq_def)
  have accepted: "(has_prop ''create'' x \<and> \<not> nullish (get_prop x ''create'')) \<or>
      (has_prop ''del'' x \<and> get_prop x ''del'' = Bool True) \<or> has_prop ''op'' x"
    if "checkOp reg x = Inr ()"
    using that by (auto simp: checkOp_def check_shape_def split: if_splits sum.splits)
  have none: "checkOp reg x = Inl (OTError ERR_OT_OP_BADLY_FORMED)"
    if "\<not> (has_prop ''create'' x \<and> \<not> nullish (get_prop x ''create''))"
      and "\<not> (has_prop ''del'' x \<and> \<not> nullish (get_prop x ''del''))"
      and "\<not> has_prop ''op'' x"
    using that by (auto simp: checkOp_def check_shape_def split: if_splits sum.splits)
  have create_first: "checkOp reg x = check_src_seq x"
    if "has_prop ''create'' x" and "typeof (get_prop x ''create'') = ''object''"
      and "\<not> nullish (get_prop x ''create'')"
      and "get_prop (get_prop x ''create'') ''type'' = Str ty" and "reg ty \<noteq> None"
    using that by (cases x) (auto simp: checkOp_def check_shape_def)
  have del_first: "checkOp reg x = check_src_seq x"
    if "\<not> (has_prop ''create'' x \<and> \<not> nullish (get_prop x ''create''))"
      and "has_prop ''del'' x" and "get_prop x ''del'' = Bool True"
    using that by (cases x) (auto simp: checkOp_def check_shape_def)
  have op_last: "checkOp reg x = check_src_seq x"
    if "\<not> (has_prop ''create'' x \<and> \<not> nullish (get_prop x ''create''))"
      and "\<not> (has_prop ''del'' x \<and> \<not> nullish (get_prop x ''del''))"
      and "has_prop ''op'' x"
    using that by (cases x) (auto simp: checkOp_def check_shape_def)
  have bad_create: "checkOp reg x = Inl (OTError ERR_OT_OP_BADLY_FORMED)"
    if h: "has_prop ''create'' x" "\<not> nullish (get_prop x ''create'')"
      "typeof (get_prop x ''create'') \<noteq> ''object'' \<or>
       typeof (get_prop (get_prop x ''create'') ''type'') \<noteq> ''string''"
  proof -
    obtain fs where x: "x = Obj fs" using h(1) by (cases x) auto
    have "check_shape reg x = Inl (OTError ERR_OT_OP_BADLY_FORMED)"
      using h
      by (cases "get_prop (get_prop x ''create'') ''type''")
        (auto simp: check_shape_def Let_def)
    then show ?thesis by (simp add: checkOp_def x)
  qed
  have unknown_type: "checkOp reg x = Inl (OTError ERR_DOC_TYPE_NOT_RECOGNIZED)"
    if "has_prop ''create'' x" and "typeof (get_prop x ''create'') = ''object''"
      and "\<not> nullish (get_prop x ''create'')"
      and "get_prop (get_prop x ''create'') ''type'' = Str ty" and "reg ty = None"
    using that by (cases x) (auto simp: checkOp_def check_shape_def)
  have bad_del: "checkOp reg x = Inl (OTError ERR_OT_OP_BADLY_FORMED)"
    if "\<not> (has_prop ''create'' x \<and> \<not> nullish (get_prop x ''create''))"
      and "has_prop ''del'' x" and "\<not> nullish (get_prop x ''del'')"
      and "get_prop x ''del'' \<noteq> Bool True"
    using that by (cases x) (auto simp: checkOp_def check_shape_def)
  show ?thesis
    using accepted none create_first del_first op_last bad_create unknown_type bad_del
    unfolding pair by blast
qed

text \<open>An empty object is rejected; a create with an \<open>op\<close> and a \<open>src\<close>/\<open>seq\<close> pair, and a
  delete with an \<open>op\<close>, are accepted; an edit with a \<open>seq\<close> and no \<open>src\<close>, a create that is a
  number, a create of an unknown type and \<open>del: false\<close> are rejected.\<close>

theorem checkOp_shapes_witness:
  "checkOp types (Obj []) = Inl (OTError ERR_OT_OP_BADLY_FORMED) \<and>
   checkOp types
     (Obj [(''create'', Obj [(''type'', Str ''counter'')]), (''op'', Num 5),
           (''src'', Str ''a''), (''seq'', Num 1)]) = Inr () \<and>
   checkOp types (Obj [(''del'', Bool True), (''op'', Num 5)]) = Inr () \<and>
   checkOp types (Obj [(''op'', Num 5), (''seq'', Num 1)])
     = Inl (OTError ERR_OT_OP_BADLY_FORMED) \<and>
   checkOp types (Obj [(''create'', Num 5), (''op'', Num 5)])
     = Inl (OTError ERR_OT_OP_BADLY_FORMED) \<and>
   checkOp types (Obj [(''create'', Obj [(''type'', Str ''rich-text'')])])
     = Inl (OTError ERR_DOC_TYPE_NOT_RECOGNIZED) \<and>
   checkOp types (Obj [(''del'', Bool False), (''op'', Num 5)])
     = Inl (OTError ERR_OT_OP_BADLY_FORMED)"
  using checkOp_shapes [of types "Obj []"]
    checkOp_shapes [of types
      "Obj [(''create'', Obj [(''type'', Str ''counter'')]), (''op'', Num 5),
            (''src'', Str ''a''), (''seq'', Num 1)]" "''counter''"]
    checkOp_shapes [of types "Obj [(''del'', Bool True), (''op'', Num 5)]"]
    checkOp_shapes [of types "Obj [(''op'', Num 5), (''seq'', Num 1)]"]
    checkOp_shapes [of types "Obj [(''create'', Num 5), (''op'', Num 5)]"]
    checkOp_shapes [of types "Obj [(''create'', Obj [(''type'', Str ''rich-text'')])]"
      "''rich-text''"]
    checkOp_shapes [of types "Obj [(''del'', Bool False), (''op'', Num 5)]"]
  by (simp add: registry_simps)

text \<open>The claim as worded (exactly one shape, anything else rejected) fails on an object
  with both \<open>create\<close> and \<open>del\<close>, which \<open>checkOp\<close> accepts.\<close>

theorem checkOp_accepts_two_shapes:
  "checkOp types
     (Obj [(''create'', Obj [(''type'', Str ''counter'')]), (''del'', Bool True)]) = Inr ()"
  by (simp add: checkOp_def check_shape_def check_src_seq_def registry_simps)

text \<open>
  Claim C2, as the code has it. Whenever \<open>apply(snapshot, op)\<close> returns, the version of the
  snapshot is the old one incremented as a double, whatever the shape of the operation:
  one more than before for a version \<open>v\<close> with \<open>- 2^53 \<le> v < 2^53\<close>.
\<close>

theorem ot_apply_increments_version:
  "ot_apply reg (Some s) op1 = Inr s' \<Longrightarrow>
     snap_v s' = js_increment (snap_v s) \<and>
     (- (2 ^ 53) \<le> snap_v s \<and> snap_v s < 2 ^ 53 \<longrightarrow> snap_v s' = snap_v s + 1)"
proof -
  assume "ot_apply reg (Some s) op1 = Inr s'"
  then have "snap_v s' = js_increment (snap_v s)"
    unfolding ot_apply_def by (auto split: if_splits option.splits sum.splits)
  then show ?thesis using js_increment_safe [of "snap_v s"] by simp
qed

text \<open>The four shapes at work: a create on the empty snapshot, then an edit, a no-op and
  a delete on a counter document.\<close>

theorem ot_apply_increments_version_witness:
  "ot_apply types (Some (createEmptySnapshot ''doc1''))
       (empty_op\<lparr> op_create := Some \<lparr> create_type = ''counter'', create_data = Num 10 \<rparr> \<rparr>)
     = Inr \<lparr> snap_id = ''doc1'', snap_v = 1,
             snap_type = Some ''http://sharejs.org/types/counter'',
             snap_data = Num 10, snap_m = None \<rparr> \<and>
   ot_apply types
       (Some \<lparr> snap_id = ''doc1'', snap_v = 1,
               snap_type = Some ''http://sharejs.org/types/counter'',
               snap_data = Num 10, snap_m = None \<rparr>)
       (empty_op\<lparr> op_op := Some (Num 5) \<rparr>)
     = Inr \<lparr> snap_id = ''doc1'', snap_v = 2,
             snap_type = Some ''http://sharejs.org/types/counter'',
             snap_data = Num 15, snap_m = None \<rparr> \<and>
   ot_apply types
       (Some \<lparr> snap_id = ''doc1'', snap_v = 2,
               snap_type = Some ''http://sharejs.org/types/counter'',
               snap_data = Num 15, snap_m = None \<rparr>)
       empty_op
     = Inr \<lparr> snap_id = ''doc1'', snap_v = 3,
             snap_type = Some ''http://sharejs.org/types/counter'',
             snap_data = Num 15, snap_m = None \<rparr> \<and>
   ot_apply types
       (Some \<lparr> snap_id = ''doc1'', snap_v = 3,
               snap_type = Some ''http://sharejs.org/types/counter'',
               snap_data = Num 15, snap_m = None \<rparr>)
       (empty_op\<lparr> op_del := Some True \<rparr>)
     = Inr \<lparr> snap_id = ''doc1'', snap_v = 4, snap_type = None,
             snap_data = Undefined, snap_m = None \<rparr>"
proof -
  let ?s1 = "\<lparr> snap_id = ''doc1'', snap_v = 1,
               snap_type = Some ''http://sharejs.org/types/counter'',
               snap_data = Num 10, snap_m = None \<rparr>"
  have inc: "js_increment 0 = 1" "js_increment 1 = 2" "js_increment 2 = 3" "js_increment 3 = 4"
    by (simp_all add: js_increment_safe)
  have create: "ot_apply types (Some (createEmptySnapshot ''doc1''))
       (empty_op\<lparr> op_create := Some \<lparr> create_type = ''counter'', create_data = Num 10 \<rparr> \<rparr>)
     = Inr ?s1"
    by (simp add: ot_apply_def empty_op_def createEmptySnapshot_def guard_simps registry_simps
        ToInt32_def truncate_number_def inc)
  have "snap_v ?s1 = snap_v (createEmptySnapshot ''doc1'') + 1"
    using ot_apply_increments_version [OF create] by (simp add: createEmptySnapshot_def)
  then show ?thesis
    by (simp add: ot_apply_def empty_op_def createEmptySnapshot_def guard_simps registry_simps
        ToInt32_def truncate_number_def inc)
qed

text \<open>The claim as worded fails from \<open>2^53\<close> on, where the increment is rounded away: an edit
  applied to a counter document at version \<open>2^53\<close> returns with the version as it was. Below
  \<open>- 2^53\<close> the increment can be by two.\<close>

theorem ot_apply_version_stuck:
  "ot_apply types
       (Some \<lparr> snap_id = ''doc1'', snap_v = 9007199254740992,
               snap_type = Some ''http://sharejs.org/types/counter'',
               snap_data = Num 10, snap_m = None \<rparr>)
       (empty_op\<lparr> op_op := Some (Num 5), op_v := Some 9007199254740992 \<rparr>)
     = Inr \<lparr> snap_id = ''doc1'', snap_v = 9007199254740992,
             snap_type = Some ''http://sharejs.org/types/counter'',
             snap_data = Num 15, snap_m = None \<rparr> \<and>
   ot_apply types
       (Some \<lparr> snap_id = ''doc1'', snap_v = - 9007199254740994,
               snap_type = Some ''http://sharejs.org/types/counter'',
               snap_data = Num 10, snap_m = None \<rparr>)
       (empty_op\<lparr> op_op := Some (Num 5) \<rparr>)
     = Inr \<lparr> snap_id = ''doc1'', snap_v = - 9007199254740992,
             snap_type = Some ''http://sharejs.org/types/counter'',
             snap_data = Num 15, snap_m = None \<rparr>"
  by (simp add: ot_apply_def empty_op_def guard_simps registry_simps
      js_increment_at_limit js_increment_below_limit)

lemma transform_delete_other_shapes:
  "isDeleteOp op1 \<Longrightarrow> \<not> isCreateOp op1 \<Longrightarrow> \<not> isEditOp op1 \<Longrightarrow>
   op_v op1 = None \<or> op_v appliedOp = None \<or> op_v op1 = op_v appliedOp \<Longrightarrow>
     (isDeleteOp appliedOp \<or> \<not> isCreateOp appliedOp \<longrightarrow>
        transform reg ty op1 appliedOp
          = Inr (op1\<lparr> op_v := map_option js_increment (op_v op1) \<rparr>)) \<and>
     (\<not> isDeleteOp appliedOp \<and> isCreateOp appliedOp \<longrightarrow>
        transform reg ty op1 appliedOp = Inl (OTError ERR_DOC_ALREADY_CREATED))"
  by (auto simp: transform_def transform_cases_def increment_version_def split: option.splits)



section \<open>Properties of the store and of the commit loop\<close>

lemma cloneSnapshot_v: "snap_v (cloneSnapshot s) = snap_v s"
  by (simp add: cloneSnapshot_def)

lemma interfere_Nil: "interfere [] db = db"
  by (simp add: interfere_def)

lemma max_array_length_safe: "max_array_length < 2 ^ 53"
  by (simp add: max_array_length_def)

lemma commit_log:
  "doc_log (snd (commit db c d op1 snapshot now)) c' d' =
     (if c' = c \<and> d' = d \<and> op_v op1 = Some (doc_version db c d) \<and>
         int (length (doc_log db c d)) < max_array_length
      then doc_log db c d @ [stored op1 c d now] else doc_log db c' d')"
  by (auto simp: commit_def doc_log_def doc_version_def lookup2_def Let_def split: option.splits)

lemma commit_version:
  "doc_version (snd (commit db c d op1 snapshot now)) c' d' =
     (if c' = c \<and> d' = d \<and> op_v op1 = Some (doc_version db c d) \<and>
         int (length (doc_log db c d)) < max_array_length
      then snap_v snapshot else doc_version db c' d')"
  by (auto simp: commit_def doc_log_def doc_version_def lookup2_def Let_def cloneSnapshot_v
      split: option.splits)

lemma commit_contiguous:
  assumes "\<forall>c d. log_contiguous db c d"
    and "\<forall>k. op_v op1 = Some k \<longrightarrow> 0 \<le> k \<and> k < 2 ^ 53 \<longrightarrow> snap_v snapshot = k + 1"
  shows "log_contiguous (snd (commit db c d op1 snapshot now)) c' d'"
proof (cases "c' = c \<and> d' = d \<and> op_v op1 = Some (doc_version db c d) \<and>
              int (length (doc_log db c d)) < max_array_length")
  case False
  have "doc_log (snd (commit db c d op1 snapshot now)) c' d' = doc_log db c' d'"
    "doc_version (snd (commit db c d op1 snapshot now)) c' d' = doc_version db c' d'"
    using False by (simp_all only: commit_log commit_version if_False)
  then show ?thesis using assms(1) by (simp add: log_contiguous_def)
next
  case True
  let ?log = "doc_log db c d"
  have inv: "log_contiguous db c d" using assms(1) by simp
  then have ver: "doc_version db c d = int (length ?log)" by (simp add: log_contiguous_def)
  have "int (length ?log) < 2 ^ 53"
    using True max_array_length_safe by linarith
  then have new: "snap_v snapshot = int (length ?log) + 1"
    using assms(2) True ver by simp
  have "doc_log (snd (commit db c d op1 snapshot now)) c' d' = ?log @ [stored op1 c d now]"
    "doc_version (snd (commit db c d op1 snapshot now)) c' d' = snap_v snapshot"
    using True by (simp_all add: commit_log commit_version)
  then show ?thesis
    using inv True new ver by (simp add: log_contiguous_def stored_def)
qed

lemma interfere_contiguous:
  "\<forall>c d. log_contiguous db c d \<Longrightarrow> \<forall>cc \<in> set calls. versioned cc \<Longrightarrow>
   \<forall>c d. log_contiguous (interfere calls db) c d"
proof (induction calls arbitrary: db)
  case Nil
  then show ?case by (simp add: interfere_def)
next
  case (Cons cc calls)
  let ?db1 = "snd (commit db (cc_collection cc) (cc_id cc) (cc_op cc) (cc_snapshot cc) (cc_now cc))"
  have "\<forall>c d. log_contiguous ?db1 c d"
    using Cons.prems commit_contiguous [of db "cc_op cc" "cc_snapshot cc"]
    by (simp add: versioned_def)
  then have "\<forall>c d. log_contiguous (interfere calls ?db1) c d"
    using Cons.IH Cons.prems by simp
  then show ?case by (simp add: interfere_def)
qed

lemma ot_apply_versions:
  "ot_apply reg (Some s) op1 = Inr s' \<Longrightarrow>
     snap_v s' = js_increment (snap_v s) \<and> (op_v op1 = None \<or> op_v op1 = Some (snap_v s))"
  unfolding ot_apply_def
  by (auto split: if_splits option.splits sum.splits)

lemma transform_if_needed_contiguous:
  assumes "\<forall>c d. log_contiguous db c d" and "turn_versioned t"
    and "transform_if_needed reg t db collection i snapshot opCopy = (r, db')"
  shows "\<forall>c d. log_contiguous db' c d"
  using assms interfere_contiguous [of db "after_getOps t"]
  by (auto simp: transform_if_needed_def Let_def turn_versioned_def
      split: if_splits sum.splits)

lemma attempt_contiguous:
  assumes inv: "\<forall>c d. log_contiguous db c d" and t: "turn_versioned t"
  shows "\<forall>c d. log_contiguous (outcome_db (attempt reg t db collection i op1)) c d"
proof -
  let ?snapshot = "getSnapshot db collection i"
  let ?db1 = "interfere (after_getSnapshot t) db"
  let ?opCopy = "with_version ?snapshot (json_copy_Op op1)"
  obtain r db2 where
    tr: "transform_if_needed reg t ?db1 collection i ?snapshot ?opCopy = (r, db2)"
    by (cases "transform_if_needed reg t ?db1 collection i ?snapshot ?opCopy") auto
  have inv1: "\<forall>c d. log_contiguous ?db1 c d"
    using inv t interfere_contiguous by (simp add: turn_versioned_def)
  have inv2: "\<forall>c d. log_contiguous db2 c d"
    using transform_if_needed_contiguous [OF inv1 t tr] .
  show ?thesis
  proof (cases r)
    case (Inl e)
    then show ?thesis using tr inv2 by (simp add: attempt_def Let_def)
  next
    case (Inr p)
    obtain opCopy' transformedOps where p: "p = (opCopy', transformedOps)" by (cases p) auto
    show ?thesis
    proof (cases "ot_apply reg (Some (cloneSnapshot ?snapshot)) opCopy'")
      case (Inl e)
      then show ?thesis using tr Inr p inv2 by (simp add: attempt_def Let_def)
    next
      case applied: (Inr newSnapshot)
      have v: "\<forall>k. op_v opCopy' = Some k \<longrightarrow> 0 \<le> k \<and> k < 2 ^ 53
                   \<longrightarrow> snap_v newSnapshot = k + 1"
        using ot_apply_versions [OF applied] by (auto simp: cloneSnapshot_v js_increment_safe)
      let ?c = "commit db2 collection i opCopy' newSnapshot (commit_time t)"
      have inv3: "\<forall>c d. log_contiguous (snd ?c) c d"
        using commit_contiguous [OF inv2 v] by simp
      have inv4: "\<forall>c d. log_contiguous (interfere (after_commit t) (snd ?c)) c d"
        using interfere_contiguous [OF inv3] t by (simp add: turn_versioned_def)
      show ?thesis using tr Inr p applied inv4
        by (cases ?c) (auto simp: attempt_def Let_def split: sum.splits)
    qed
  qed
qed

lemma submit_loop_contiguous:
  "\<forall>c d. log_contiguous db c d \<Longrightarrow> \<forall>n. turn_versioned (sched n) \<Longrightarrow>
   \<forall>c d. log_contiguous
     (fst (snd (submit_loop reg sched maxRetries collection i retries db op1))) c d"
proof (induction reg sched maxRetries collection i retries db op1 rule: submit_loop.induct)
  case (1 reg sched maxRetries collection i retries db op1)
  have a: "\<forall>c d. log_contiguous
      (outcome_db (attempt reg (sched retries) db collection i op1)) c d"
    using attempt_contiguous "1.prems" by blast
  show ?case
  proof (cases "attempt reg (sched retries) db collection i op1")
    case (Committed r db')
    then show ?thesis using a by (subst submit_loop.simps) simp
  next
    case (Thrown e db')
    then show ?thesis using a by (subst submit_loop.simps) simp
  next
    case (Conflict db')
    show ?thesis
    proof (cases "Suc retries > maxRetries")
      case True
      then show ?thesis using a Conflict by (subst submit_loop.simps) simp
    next
      case False
      have "\<forall>c d. log_contiguous db' c d" using a Conflict by simp
      then have "\<forall>c d. log_contiguous
          (fst (snd (submit_loop reg sched maxRetries collection i
                       (Suc retries) db' (op1\<lparr> op_v := None \<rparr>)))) c d"
        using "1.IH" [OF Conflict] False "1.prems"(2) by simp
      then show ?thesis using Conflict False by (subst submit_loop.simps) simp
    qed
  qed
qed

lemma submitOp_contiguous:
  "\<forall>c d. log_contiguous db c d \<Longrightarrow> \<forall>n. turn_versioned (sched n) \<Longrightarrow>
   \<forall>c d. log_contiguous (fst (snd (submitOp reg db collection i op1 mr sched))) c d"
  using submit_loop_contiguous
  by (auto simp: submitOp_def Let_def split: sum.splits)

lemma reachable_contiguous: "reachable reg db \<Longrightarrow> \<forall>c d. log_contiguous db c d"
proof (induction rule: reachable.induct)
  case start
  show ?case
    by (simp add: log_contiguous_def doc_log_def doc_version_def lookup2_def new_MemoryDb_def
        max_array_length_def)
next
  case (submit db sched collection i op1 maxRetries result db' op')
  then show ?case
    using submitOp_contiguous [of db sched reg collection i op1 maxRetries] by simp
qed

lemma getSnapshot_version: "snap_v (getSnapshot db collection i) = doc_version db collection i"
  by (simp add: getSnapshot_def doc_version_def createEmptySnapshot_def cloneSnapshot_v
      split: option.splits)

lemma quiet_schedule_versioned: "\<forall>n. turn_versioned (quiet_schedule n)"
  by (simp add: quiet_schedule_def quiet_def turn_versioned_def)

lemma racing_versioned: "\<forall>n. turn_versioned (racing n)"
  by (simp add: racing_def quiet_def turn_versioned_def versioned_def commit_Y_def
      insert_Y_def empty_op_def)

lemma reachable_after_submit:
  "reachable types db \<Longrightarrow> \<forall>n. turn_versioned (sched n) \<Longrightarrow>
   reachable types (after_submit db i op1 sched)"
  unfolding after_submit_def
  by (rule reachable.submit [where result = "fst (submitOp types db ''docs'' i op1 None sched)"
        and op' = "snd (snd (submitOp types db ''docs'' i op1 None sched))"]) simp_all

lemma getOps_all:
  "\<forall>h \<in> set (doc_log db c i). \<exists>k\<ge>0. op_v h = Some k \<Longrightarrow>
   getOps db c i 0 None = doc_log db c i"
  by (auto simp: getOps_def doc_log_def intro!: filter_True split: option.splits)

text \<open>
  Claim C9. In every store that runs of \<open>submitOp\<close> produce from the empty store, the log
  of each document is contiguous: the entry at index \<open>k\<close> has \<open>v = k\<close>, the version of the
  snapshot is the length of the log, and \<open>getOps\<close> from version 0 returns the whole log.
\<close>

theorem server_log_contiguous:
  "reachable reg db \<Longrightarrow>
     (\<forall>k < length (doc_log db collection i). op_v (doc_log db collection i ! k) = Some (int k)) \<and>
     snap_v (getSnapshot db collection i) = int (length (doc_log db collection i)) \<and>
     getOps db collection i 0 None = doc_log db collection i"
proof -
  assume "reachable reg db"
  then have c: "log_contiguous db collection i" using reachable_contiguous by blast
  let ?log = "doc_log db collection i"
  have m: "map op_v ?log = map (\<lambda>k. Some (int k)) [0..<length ?log]"
    using c by (simp add: log_contiguous_def)
  have nth: "op_v (?log ! k) = Some (int k)" if "k < length ?log" for k
  proof -
    have "map op_v ?log ! k = map (\<lambda>k. Some (int k)) [0..<length ?log] ! k" using m by simp
    then show ?thesis using that by simp
  qed
  have "\<forall>h \<in> set ?log. \<exists>k\<ge>0. op_v h = Some k"
  proof
    fix h assume "h \<in> set ?log"
    then obtain k where "k < length ?log" "h = ?log ! k" by (auto simp: in_set_conv_nth)
    then show "\<exists>k\<ge>0. op_v h = Some k" using nth by auto
  qed
  then have "getOps db collection i 0 None = ?log" by (rule getOps_all)
  moreover have "snap_v (getSnapshot db collection i) = int (length ?log)"
    using c by (simp add: log_contiguous_def getSnapshot_version)
  ultimately show ?thesis using nth by blast
qed

theorem server_log_contiguous_witness:
  "reachable types db_race \<and>
   length (doc_log db_race ''docs'' ''d1'') = 3 \<and>
   op_v (doc_log db_race ''docs'' ''d1'' ! 2) = Some 2 \<and>
   snap_v (getSnapshot db_race ''docs'' ''d1'') = 3"
proof -
  have "reachable types db_hello"
    unfolding db_hello_def
    by (intro reachable_after_submit reachable.start quiet_schedule_versioned)
  then have r: "reachable types db_race"
    unfolding db_race_def by (intro reachable_after_submit racing_versioned)
  have len: "length (doc_log db_race ''docs'' ''d1'') = 3" by code_simp
  show ?thesis
    using r len server_log_contiguous [OF r, of "''docs''" "''d1''"] by simp
qed

lemma transform_src_seq:
  "transform reg ty op1 h = Inr op2 \<Longrightarrow> op_src op2 = op_src op1 \<and> op_seq op2 = op_seq op1"
  by (auto simp: transform_def transform_cases_def increment_version_def
      split: if_splits sum.splits option.splits)

lemma rebase_src_seq:
  "rebase reg ty op1 hs = Inr op2 \<Longrightarrow> op_src op2 = op_src op1 \<and> op_seq op2 = op_seq op1"
proof (induction hs arbitrary: op1)
  case Nil
  then show ?case by simp
next
  case (Cons h hs)
  then show ?case
    by (auto split: if_splits sum.splits dest!: transform_src_seq)
qed

lemma rebase_append:
  "rebase reg ty op1 (pre @ rest) =
     (case rebase reg ty op1 pre of Inl e \<Rightarrow> Inl e | Inr op2 \<Rightarrow> rebase reg ty op2 rest)"
  by (induction pre arbitrary: op1) (auto split: sum.splits)

lemma rebase_duplicate:
  assumes "truthy_src (op_src op1)" and "op_src h = op_src op1" and "op_seq h = op_seq op1"
  shows "\<exists>e. rebase reg ty op1 (pre @ h # post) = Inl e \<and>
             ((\<exists>op2. rebase reg ty op1 pre = Inr op2) \<longrightarrow> e = OTError ERR_OP_ALREADY_SUBMITTED)"
proof (cases "rebase reg ty op1 pre")
  case (Inl e)
  then show ?thesis by (simp add: rebase_append)
next
  case (Inr op2)
  then have "op_src op2 = op_src op1 \<and> op_seq op2 = op_seq op1" by (rule rebase_src_seq)
  then show ?thesis using Inr assms by (simp add: rebase_append)
qed

text \<open>
  Claim C6, as the code has it. Let the submitted operation pass \<open>checkOp\<close>, have a base
  version \<open>v\<close> behind the snapshot's, and carry a non-empty \<open>src\<close>; let the entries that
  \<open>getOps\<close> returns for \<open>[v, snapshot.v)\<close> contain an entry \<open>h\<close> with the same \<open>src\<close> and \<open>seq\<close>.
  Then \<open>submitOp\<close> throws on its first pass, the store is changed by the commits of other
  tasks only, and the caller's operation is untouched. The error is
  \<open>ERR_OP_ALREADY_SUBMITTED\<close> when the log holds as many entries as the versions in between
  and the operation can be transformed over the entries that come before \<open>h\<close>.
\<close>

theorem submitOp_duplicate:
  assumes "checkOp reg (Op_to_js op1) = Inr ()"
    and "snapshot = getSnapshot db collection i"
    and "op_v op1 = Some v" and "v < snap_v snapshot"
    and "op_src op1 = Some src" and "src \<noteq> []"
    and "db1 = interfere (after_getSnapshot (sched 0)) db"
    and "getOps db1 collection i v (Some (snap_v snapshot)) = pre @ h # post"
    and "op_src h = Some src" and "op_seq h = op_seq op1"
  shows "\<exists>e. submitOp reg db collection i op1 maxRetries sched
               = (Inl e, interfere (after_getOps (sched 0)) db1, op1) \<and>
             (int (length (pre @ h # post)) = snap_v snapshot - v \<and>
              (\<exists>op2. rebase reg (type_arg_of_name (snap_type snapshot)) (json_copy_Op op1) pre
                        = Inr op2)
              \<longrightarrow> e = OTError ERR_OP_ALREADY_SUBMITTED)"
proof -
  let ?opCopy = "json_copy_Op op1"
  let ?ty = "type_arg_of_name (snap_type snapshot)"
  let ?db2 = "interfere (after_getOps (sched 0)) db1"
  have copy: "with_version snapshot ?opCopy = ?opCopy" "version_of snapshot ?opCopy = v"
    "op_src ?opCopy = Some src" "op_seq ?opCopy = op_seq op1"
    using assms(3,5) by (simp_all add: with_version_def version_of_def json_copy_Op_def)
  obtain e where e: "rebase reg ?ty ?opCopy (pre @ h # post) = Inl e"
    and e_dup: "(\<exists>op2. rebase reg ?ty ?opCopy pre = Inr op2)
                  \<longrightarrow> e = OTError ERR_OP_ALREADY_SUBMITTED"
    using rebase_duplicate [of ?opCopy h reg ?ty pre post] copy assms(6,9,10) by auto
  define e' where "e' = (if int (length (pre @ h # post)) \<noteq> snap_v snapshot - v
                         then OTError ERR_SUBMIT_TRANSFORM_OPS_NOT_FOUND else e)"
  have "transform_if_needed reg (sched 0) db1 collection i snapshot ?opCopy = (Inl e', ?db2)"
    using assms(4,8) e copy(2) unfolding transform_if_needed_def e'_def
    by (simp add: Let_def)
  then have "attempt reg (sched 0) db collection i op1 = Thrown e' ?db2"
    using assms(2,7) copy(1) by (simp add: attempt_def Let_def)
  then have "submitOp reg db collection i op1 maxRetries sched = (Inl e', ?db2, op1)"
    using assms(1) by (simp add: submitOp_def Let_def)
  moreover have "int (length (pre @ h # post)) = snap_v snapshot - v \<and>
       (\<exists>op2. rebase reg ?ty ?opCopy pre = Inr op2) \<longrightarrow> e' = OTError ERR_OP_ALREADY_SUBMITTED"
    using e_dup by (simp add: e'_def)
  ultimately show ?thesis by blast
qed

text \<open>Client \<open>a\<close> sends its insertion, already committed at version 2, once more against
  version 1: the log entries 1 and 2 are fetched, the operation is transformed over the
  first, and the second is recognised.\<close>

theorem submitOp_duplicate_witness:
  "submitOp types db_YX ''docs'' ''d1'' insert_X None quiet_schedule
     = (Inl (OTError ERR_OP_ALREADY_SUBMITTED), db_YX, insert_X)"
proof -
  let ?Y = "stored insert_Y ''docs'' ''d1'' 0"
  let ?X = "stored (insert_X\<lparr> op_op := Some (encode_TextOp (InsertOp 5 ''X'')),
                             op_v := Some 2 \<rparr>) ''docs'' ''d1'' 0"
  have chk: "checkOp types (Op_to_js insert_X) = Inr ()" by code_simp
  have snap: "snap_v (getSnapshot db_YX ''docs'' ''d1'') = 3"
    "snap_type (getSnapshot db_YX ''docs'' ''d1'') = Some text_uri" by code_simp+
  have ops: "getOps db_YX ''docs'' ''d1'' 1 (Some 3) = [?Y] @ ?X # []" by code_simp
  have pre: "\<exists>op2. rebase types (TypeName text_uri) (json_copy_Op insert_X) [?Y] = Inr op2"
  proof -
    have "rebase types (TypeName text_uri) (json_copy_Op insert_X) [?Y]
       = Inr (insert_X\<lparr> op_op := Some (encode_TextOp (InsertOp 5 ''X'')), op_v := Some 2 \<rparr>)"
      by code_simp
    then show ?thesis by blast
  qed
  have "\<exists>e. submitOp types db_YX ''docs'' ''d1'' insert_X None quiet_schedule
               = (Inl e, db_YX, insert_X) \<and>
             (int (length ([?Y] @ ?X # [])) = 3 - 1 \<and>
              (\<exists>op2. rebase types (TypeName text_uri) (json_copy_Op insert_X) [?Y] = Inr op2)
              \<longrightarrow> e = OTError ERR_OP_ALREADY_SUBMITTED)"
    using submitOp_duplicate [of types insert_X "getSnapshot db_YX ''docs'' ''d1''" db_YX
        "''docs''" "''d1''" 1 "''a''" db_YX quiet_schedule "[?Y]" ?X "[]" None]
      chk snap ops
    by (simp add: insert_X_def empty_op_def stored_def quiet_schedule_def quiet_def
        interfere_Nil)
  then show ?thesis using pre by auto
qed

text \<open>
  The claim as worded fails in two ways. After the document has been deleted at version
  3, the same resubmission is rejected with \<open>ERR_DOC_DOES_NOT_EXIST\<close>, thrown by the
  transform over entry 1, before entry 2 is looked at. And a client whose \<open>src\<close> is the
  empty string is never recognised: its increment, committed at version 1 and sent again,
  is committed a second time, and the log holds the pair \<open>(src, seq)\<close> twice.
\<close>

theorem submitOp_duplicate_other_outcomes:
  "op_v insert_X = Some 1 \<and> op_src insert_X = Some ''a'' \<and> op_seq insert_X = Some 2 \<and>
   snap_v (getSnapshot db_deleted ''docs'' ''d1'') = 4 \<and>
   getOps db_deleted ''docs'' ''d1'' 1 (Some 4)
     = [stored insert_Y ''docs'' ''d1'' 0,
        stored (insert_X\<lparr> op_op := Some (encode_TextOp (InsertOp 5 ''X'')),
                          op_v := Some 2 \<rparr>) ''docs'' ''d1'' 0,
        stored delete_doc ''docs'' ''d1'' 0] \<and>
   fst (submitOp types db_deleted ''docs'' ''d1'' insert_X None quiet_schedule)
     = Inl (OTError ERR_DOC_DOES_NOT_EXIST) \<and>
   op_v add_5 = Some 1 \<and> op_src add_5 = Some [] \<and> op_seq add_5 = Some 2 \<and>
   snap_v (getSnapshot db_5 ''docs'' ''c1'') = 2 \<and>
   getOps db_5 ''docs'' ''c1'' 1 (Some 2) = [stored add_5 ''docs'' ''c1'' 0] \<and>
   fst (submitOp types db_5 ''docs'' ''c1'' add_5 None quiet_schedule)
     = Inr \<lparr> res_op = add_5\<lparr> op_v := Some 2 \<rparr>,
             res_snapshot = \<lparr> snap_id = ''c1'', snap_v = 3,
                              snap_type = Some ''http://sharejs.org/types/counter'',
                              snap_data = Num 10, snap_m = None \<rparr>,
             res_ops = [stored add_5 ''docs'' ''c1'' 0] \<rparr> \<and>
   getOps (after_submit db_5 ''c1'' add_5 quiet_schedule) ''docs'' ''c1'' 0 None
     = [stored create_counter ''docs'' ''c1'' 0,
        stored add_5 ''docs'' ''c1'' 0,
        stored (add_5\<lparr> op_v := Some 2 \<rparr>) ''docs'' ''c1'' 0]"
  by code_simp

text \<open>The caller's operation comes back as it was or without its version, and it comes
  back as it was when the first pass does not end in a failed commit.\<close>

lemma submit_loop_caller_op:
  "snd (snd (submit_loop reg sched maxRetries collection i retries db op1)) = op1 \<or>
   snd (snd (submit_loop reg sched maxRetries collection i retries db op1))
     = op1\<lparr> op_v := None \<rparr>"
proof (induction reg sched maxRetries collection i retries db op1 rule: submit_loop.induct)
  case (1 reg sched maxRetries collection i retries db op1)
  show ?case
  proof (cases "attempt reg (sched retries) db collection i op1")
    case (Committed r db')
    then show ?thesis by (subst (1 2) submit_loop.simps) simp
  next
    case (Thrown e db')
    then show ?thesis by (subst (1 2) submit_loop.simps) simp
  next
    case (Conflict db')
    show ?thesis
    proof (cases "Suc retries > maxRetries")
      case True
      then show ?thesis using Conflict by (subst (1 2) submit_loop.simps) simp
    next
      case False
      then show ?thesis using Conflict "1.IH" [OF Conflict False]
        by (subst (1 2) submit_loop.simps) auto
    qed
  qed
qed

lemma submitOp_caller_op:
  "snd (snd (submitOp reg db collection i op1 maxRetries sched)) = op1 \<or>
   snd (snd (submitOp reg db collection i op1 maxRetries sched)) = op1\<lparr> op_v := None \<rparr>"
  using submit_loop_caller_op
  by (auto simp: submitOp_def Let_def split: sum.splits)

lemma submitOp_first_pass:
  "\<forall>db'. attempt reg (sched 0) db collection i op1 \<noteq> Conflict db' \<Longrightarrow>
   snd (snd (submitOp reg db collection i op1 maxRetries sched)) = op1"
  by (cases "attempt reg (sched 0) db collection i op1")
     (auto simp: submitOp_def Let_def split: sum.splits)

text \<open>
  Claim C8. The operation is copied at the start of each pass, but after a failed commit
  the loop assigns \<open>op.v = undefined\<close> on the caller's object. In the run below the commit of
  \<open>b\<close>'s insertion lands while \<open>a\<close>'s submission, made against version 1, awaits its
  snapshot: the first commit fails, the caller's operation loses its version, and the
  second pass applies the insertion at version 2 as it stands, at position 4 of \<open>Yhello\<close>.
  Submitted after \<open>b\<close>'s commit, the same operation is transformed to position 5. The
  last conjunct shows that the interleaved commit is the one \<open>submitOp\<close> makes for \<open>b\<close>.
\<close>

theorem submitOp_resets_caller_version:
  "op_v insert_X = Some 1 \<and>
   snd (snd (submitOp types db_hello ''docs'' ''d1'' insert_X None racing))
     = insert_X\<lparr> op_v := None \<rparr> \<and>
   fst (submitOp types db_hello ''docs'' ''d1'' insert_X None racing)
     = Inr \<lparr> res_op = insert_X\<lparr> op_v := Some 2 \<rparr>,
             res_snapshot = \<lparr> snap_id = ''d1'', snap_v = 3, snap_type = Some text_uri,
                              snap_data = Str ''YhelXlo'', snap_m = None \<rparr>,
             res_ops = [] \<rparr> \<and>
   fst (submitOp types db_Y ''docs'' ''d1'' insert_X None quiet_schedule)
     = Inr \<lparr> res_op = insert_X\<lparr> op_op := Some (encode_TextOp (InsertOp 5 ''X'')),
                               op_v := Some 2 \<rparr>,
             res_snapshot = \<lparr> snap_id = ''d1'', snap_v = 3, snap_type = Some text_uri,
                              snap_data = Str ''YhellXo'', snap_m = None \<rparr>,
             res_ops = [stored insert_Y ''docs'' ''d1'' 0] \<rparr> \<and>
   fst (submitOp types db_hello ''docs'' ''d1'' insert_Y None quiet_schedule)
     = Inr \<lparr> res_op = cc_op commit_Y, res_snapshot = cc_snapshot commit_Y, res_ops = [] \<rparr>"
  by code_simp


section \<open>Properties of the client replica\<close>

lemma subscribe_unsubscribed:
  "\<not> subscribed cl \<Longrightarrow>
   subscribe None cl =
     (if canSend cl \<and> \<not> has_transport cl
      then (Some (Error ''No transport bound to connection''), cl)
      else if canSend cl then
        (None, cl\<lparr> effects := effects cl @
                       [Sent (SubscribeMessage (doc_collection cl) (doc_id cl))] \<rparr>)
      else (None, cl))"
  by (simp add: subscribe_def and_then_def sendSubscribe_def send_def record_effect_def)

lemma call_all_callbacks:
  "call_all op1 arg = map (\<lambda>f. Called f arg) (List.map_filter (\<lambda>cb. cb) (callbacks op1))"
proof -
  have "concat (map (\<lambda>cb. case cb of None \<Rightarrow> [] | Some f \<Rightarrow> [Called f arg]) cbs)
          = map (\<lambda>f. Called f arg) (List.map_filter (\<lambda>cb. cb) cbs)" for cbs
    by (induction cbs) (auto simp: List.map_filter_def split: option.splits)
  then show ?thesis by (simp add: call_all_def)
qed

text \<open>
  Claim C7, as the code has it. When an \<open>op\<close> message carries an error and an operation
  is in flight, the replica is rolled back: nothing is in flight, the queue is empty,
  type, data and version are those of a document never fetched, the replica is marked
  unsubscribed, and the effects of the call are, in order, every callback that is a
  function, of the operation in flight and then of each queued operation, called with the
  error; then the subscribe request, which is sent only when the connection can send;
  then the \<open>error\<close> event. The call throws only from the transport check of a connection
  that can send but has no transport, or from an \<open>error\<close> event that nobody listens to.
\<close>

theorem handleOp_rejection:
  assumes "inflightOp cl = Some inflight"
  shows "\<exists>thrown cl'.
      handleOp reg (Some err) msg cl = (thrown, cl') \<and>
      inflightOp cl' = None \<and> pendingOps cl' = [] \<and>
      doc_type cl' = None \<and> doc_data cl' = Undefined \<and> version cl' = None \<and>
      subscribed cl' = False \<and>
      effects cl' =
        effects cl @
        concat (map (\<lambda>op1. map (\<lambda>f. Called f (Some (Error (err_message err))))
                               (List.map_filter (\<lambda>cb. cb) (callbacks op1)))
                    (inflight # pendingOps cl)) @
        (if canSend cl \<and> has_transport cl
         then [Sent (SubscribeMessage (doc_collection cl) (doc_id cl))] else []) @
        (if (canSend cl \<longrightarrow> has_transport cl) \<and> has_error_listener cl
         then [Emitted (Ev_error (Error (err_message err)))] else []) \<and>
      thrown =
        (if canSend cl \<and> \<not> has_transport cl
         then Some (Error ''No transport bound to connection'')
         else if has_error_listener cl then None
         else Some (Error (err_message err)))"
  using assms
  by (simp add: handleOp_def rollback_def hardRollback_def Let_def subscribe_unsubscribed
      and_then_def emit_def record_effect_def call_all_callbacks)

text \<open>On a connection that can send: the callbacks of both operations in order, the
  \<open>undefined\<close> entries skipped, then the subscribe request and the \<open>error\<close> event.\<close>

theorem handleOp_rejection_witness:
  "inflightOp replica = Some pending_X \<and>
   fst (handleOp types (Some was_deleted) rejection replica) = None \<and>
   inflightOp (snd (handleOp types (Some was_deleted) rejection replica)) = None \<and>
   pendingOps (snd (handleOp types (Some was_deleted) rejection replica)) = [] \<and>
   version (snd (handleOp types (Some was_deleted) rejection replica)) = None \<and>
   doc_data (snd (handleOp types (Some was_deleted) rejection replica)) = Undefined \<and>
   subscribed (snd (handleOp types (Some was_deleted) rejection replica)) = False \<and>
   effects (snd (handleOp types (Some was_deleted) rejection replica)) =
     [Called 1 (Some (Error ''Document was deleted'')),
      Called 2 (Some (Error ''Document was deleted'')),
      Called 3 (Some (Error ''Document was deleted'')),
      Called 4 (Some (Error ''Document was deleted'')),
      Sent (SubscribeMessage ''docs'' ''d1''),
      Emitted (Ev_error (Error ''Document was deleted''))]"
proof -
  have inflight: "inflightOp replica = Some pending_X" by (simp add: replica_def)
  obtain thrown cl' where
    "handleOp types (Some was_deleted) rejection replica = (thrown, cl')"
    "inflightOp cl' = None" "pendingOps cl' = []" "version cl' = None"
    "doc_data cl' = Undefined" "subscribed cl' = False"
    "effects cl' =
        effects replica @
        concat (map (\<lambda>op1. map (\<lambda>f. Called f (Some (Error (err_message was_deleted))))
                               (List.map_filter (\<lambda>cb. cb) (callbacks op1)))
                    (pending_X # pendingOps replica)) @
        (if canSend replica \<and> has_transport replica
         then [Sent (SubscribeMessage (doc_collection replica) (doc_id replica))] else []) @
        (if (canSend replica \<longrightarrow> has_transport replica) \<and> has_error_listener replica
         then [Emitted (Ev_error (Error (err_message was_deleted)))] else [])"
    "thrown =
        (if canSend replica \<and> \<not> has_transport replica
         then Some (Error ''No transport bound to connection'')
         else if has_error_listener replica then None
         else Some (Error (err_message was_deleted)))"
    using handleOp_rejection [OF inflight, of types was_deleted rejection] by blast
  then show ?thesis
    using inflight
    by (simp add: replica_def pending_X_def pending_Z_def was_deleted_def List.map_filter_def)
qed

text \<open>The claim as worded (a resubscribe is initiated) fails on a connection that was
  closed while the operation was in flight: the rollback sends nothing, and the replica
  stays unsubscribed.\<close>

theorem handleOp_rejection_closed:
  "inflightOp closed_replica = Some pending_X \<and>
   fst (handleOp types (Some was_deleted) rejection closed_replica) = None \<and>
   subscribed (snd (handleOp types (Some was_deleted) rejection closed_replica)) = False \<and>
   effects (snd (handleOp types (Some was_deleted) rejection closed_replica)) =
     [Called 1 (Some (Error ''Document was deleted'')),
      Called 2 (Some (Error ''Document was deleted'')),
      Called 3 (Some (Error ''Document was deleted'')),
      Called 4 (Some (Error ''Document was deleted'')),
      Emitted (Ev_error (Error ''Document was deleted''))]"
  by (simp add: handleOp_def rollback_def hardRollback_def Let_def subscribe_def
      and_then_def emit_def record_effect_def call_all_def closed_replica_def replica_def
      pending_X_def pending_Z_def was_deleted_def)

end
